theory Spec2Isabelle
  imports Complex_Main
begin

section \<open>Extrusion of footprints: the structure builder and the wall builder\<close>

text \<open>
  A shallow embedding of \<^verbatim>\<open>src/osgEarth/ExtrudeGeometryFilter.cpp\<close>.
  The C++ \<^verbatim>\<open>double\<close> and \<^verbatim>\<open>float\<close> values are idealised as
  \<^typ>\<open>real\<close>: rounding, infinities and NaN are not modelled, and a division by
  zero has HOL's value \<open>0\<close>. The one place where rounding decides what the code does,
  the comparison of the running offset with the texture boundary in step 2 of
  \<^verbatim>\<open>buildStructure\<close>, is modelled a second time with binary64 rounding. Where the
  source can loop forever the model is an option-valued partial function whose value
  \<open>None\<close> means that the call does not return.

  Of \<^verbatim>\<open>buildStructure\<close> the model keeps the vertical extent pass, the construction
  of the corners (step 1), the texture-tiling subdivision (step 2) and the face assembly
  (step 4). The roof texture coordinates and the corner angles (step 3) only write the
  corner fields \<^verbatim>\<open>roofTexU\<close>, \<^verbatim>\<open>roofTexV\<close> and \<^verbatim>\<open>cosAngle\<close>,
  which the roof and outline builders read; these three fields are left out of the corner record.
\<close>

subsection \<open>Vectors (osg::Vec3d, osg::Vec3f, osg::Vec4f)\<close>

datatype vec3 = Vec3 (vx: real) (vy: real) (vz: real)

datatype vec4 = Vec4 real real real real

definition vadd :: "vec3 \<Rightarrow> vec3 \<Rightarrow> vec3" where
  "vadd a b = Vec3 (vx a + vx b) (vy a + vy b) (vz a + vz b)"

definition vsub :: "vec3 \<Rightarrow> vec3 \<Rightarrow> vec3" where
  "vsub a b = Vec3 (vx a - vx b) (vy a - vy b) (vz a - vz b)"

definition vscale :: "vec3 \<Rightarrow> real \<Rightarrow> vec3" where
  "vscale a k = Vec3 (vx a * k) (vy a * k) (vz a * k)"

definition vdiv :: "vec3 \<Rightarrow> real \<Rightarrow> vec3" where
  "vdiv a k = Vec3 (vx a / k) (vy a / k) (vz a / k)"

text \<open>The operator \<^verbatim>\<open>^\<close> of osg::Vec3 is the cross product.\<close>

definition vcross :: "vec3 \<Rightarrow> vec3 \<Rightarrow> vec3" where
  "vcross a b = Vec3 (vy a * vz b - vz a * vy b)
                     (vz a * vx b - vx a * vz b)
                     (vx a * vy b - vy a * vx b)"

definition length2 :: "vec3 \<Rightarrow> real" where
  "length2 a = vx a * vx a + vy a * vy a + vz a * vz a"

definition vlength :: "vec3 \<Rightarrow> real" where
  "vlength a = sqrt (length2 a)"

text \<open>\<^verbatim>\<open>Vec3d::normalize\<close> scales by the inverse norm only when the norm is positive.\<close>

definition normalize :: "vec3 \<Rightarrow> vec3" where
  "normalize a = (if vlength a > 0 then vscale a (1 / vlength a) else a)"

subsection \<open>Data model\<close>

record corner =
  isFromSource :: bool
  base :: vec3
  roof :: vec3
  height :: real
  offsetX :: real

record face =
  left :: corner
  right :: corner
  widthM :: real

record elevation =
  faces :: "face list"
  texHeightAdjustedM :: real

record "structure" =
  isPolygon :: bool
  elevations :: "elevation list"
  verticalOffset :: real
  baseCentroid :: vec3

text \<open>
  The fields of a \<^verbatim>\<open>SkinResource\<close> that the two builders read. \<open>imageWidth\<close> and
  \<open>imageHeight\<close> are the values that dereferencing the optional yields (the configured
  value, or the resource's default when unset); \<open>texEnvDecal\<close> stands for
  \<^verbatim>\<open>texEnvMode() == osg::TexEnv::DECAL\<close>.
\<close>

record skin =
  imageWidth :: real
  imageHeight :: real
  isTiled :: bool
  texEnvDecal :: bool
  imageBiasS :: real
  imageBiasT :: real
  imageScaleS :: real
  imageScaleT :: real
  imageLayer :: real

text \<open>
  An input geometry as \<^verbatim>\<open>buildStructure\<close> sees it: whether its component type is
  \<^verbatim>\<open>TYPE_POLYGON\<close>, the point sequences that \<^verbatim>\<open>ConstGeometryIterator\<close>
  yields in order, and the value of \<^verbatim>\<open>getBounds().center2d()\<close>.
\<close>

record geometry =
  isPolygonType :: bool
  parts :: "vec3 list list"
  center2d :: "real \<times> real"

subsection \<open>buildStructure: vertical extent pass\<close>

definition DBL_MAX :: real where
  "DBL_MAX = (2 - 1 / 2 ^ 52) * 2 ^ 1023"

record extent =
  targetLen :: real
  minLoc :: vec3
  maxLoc :: vec3

definition extent0 :: extent where
  "extent0 = \<lparr>targetLen = - DBL_MAX, minLoc = Vec3 DBL_MAX DBL_MAX DBL_MAX, maxLoc = Vec3 0 0 0\<rparr>"

definition zfinder_point :: "real \<Rightarrow> extent \<Rightarrow> vec3 \<Rightarrow> extent" where
  "zfinder_point absHeight e m_point =
     (let e1 = (if vz m_point + absHeight > targetLen e
                then e\<lparr>targetLen := vz m_point + absHeight\<rparr> else e);
          e2 = (if vz m_point < vz (minLoc e1) then e1\<lparr>minLoc := m_point\<rparr> else e1)
      in (if vz m_point > vz (maxLoc e2) then e2\<lparr>maxLoc := m_point\<rparr> else e2))"

definition zfinder :: "real \<Rightarrow> geometry \<Rightarrow> extent" where
  "zfinder absHeight input = foldl (foldl (zfinder_point absHeight)) extent0 (parts input)"

subsection \<open>buildStructure: adjusted wall texture height\<close>

text \<open>\<^verbatim>\<open>osg::round\<close> rounds half away from zero.\<close>

definition osg_round :: "real \<Rightarrow> real" where
  "osg_round v = (if v \<ge> 0 then of_int \<lfloor>v + 1 / 2\<rfloor> else of_int \<lceil>v - 1 / 2\<rceil>)"

definition adjustTexHeight :: "real \<Rightarrow> real \<Rightarrow> real" where
  "adjustTexHeight maxHeight texHeightM =
     (let dv = osg_round (maxHeight / texHeightM)
      in if dv > 0 then maxHeight / dv else maxHeight)"

subsection \<open>buildStructure: step 1, the corners of the source points\<close>

text \<open>
  \<open>xform\<close> is \<^verbatim>\<open>transformAndLocalize\<close> into the map's reference system, present
  only when the context is georeferenced. \<open>offsetX\<close> is not initialised by step 1
  (step 2 assigns it on every source corner); the model holds \<open>0\<close> there until then.
\<close>

definition localize :: "(vec3 \<Rightarrow> vec3) option \<Rightarrow> vec3 \<Rightarrow> vec3" where
  "localize xform p = (case xform of None \<Rightarrow> p | Some t \<Rightarrow> t p)"

definition makeCorner :: "(vec3 \<Rightarrow> vec3) option \<Rightarrow> real \<Rightarrow> bool \<Rightarrow> real \<Rightarrow> vec3 \<Rightarrow> corner" where
  "makeCorner xform hgt flatten tgtLen m =
     (let b0 = m;
          r1 = (if hgt \<ge> 0
                then (if flatten then Vec3 (vx b0) (vy b0) tgtLen
                      else Vec3 (vx b0) (vy b0) (vz b0 + hgt))
                else m);
          b1 = (if hgt \<ge> 0 then b0 else Vec3 (vx b0) (vy b0) (vz b0 + hgt));
          b2 = localize xform b1;
          r2 = localize xform r1
      in \<lparr>isFromSource = True, base = b2, roof = r2,
          height = vlength (vsub r2 b2), offsetX = 0\<rparr>)"

subsection \<open>buildStructure: step 2, texture-tiling subdivision\<close>

text \<open>What stays fixed while the inner \<^verbatim>\<open>while\<close> loop runs on one edge.\<close>

record tile_edge =
  this_corner :: corner
  base_vec :: vec3
  roof_vec :: vec3
  cornerOffset :: real
  span :: real
  isLastEdge :: bool

definition fakeCorner :: "tile_edge \<Rightarrow> real \<Rightarrow> corner" where
  "fakeCorner e nextTexBoundary =
     (let advance = nextTexBoundary - cornerOffset e;
          nb = vadd (base (this_corner e)) (vscale (base_vec e) advance);
          nr = vadd (roof (this_corner e)) (vscale (roof_vec e) advance)
      in \<lparr>isFromSource = False, base = nb, roof = nr,
          height = vlength (vsub nr nb), offsetX = cornerOffset e + advance\<rparr>)"

text \<open>
  The loop \<^verbatim>\<open>while (nextTexBoundary < cornerOffset + span)\<close>. Every new corner is
  placed directly before the next source corner (or at the end of the list on the last edge
  of a polygon), hence after the ones inserted earlier on this edge: \<open>inserted\<close> collects
  them in list order. On the last edge of an open line the loop leaves by \<^verbatim>\<open>break\<close>.
  The result is the inserted corners and the new value of \<^verbatim>\<open>nextTexBoundary\<close>;
  \<open>None\<close> means that the loop never ends.
\<close>

partial_function (option) tile_loop ::
  "real \<Rightarrow> bool \<Rightarrow> tile_edge \<Rightarrow> corner list \<Rightarrow> real \<Rightarrow> (corner list \<times> real) option" where
  "tile_loop texWidthM isPoly e inserted nextTexBoundary =
     (if nextTexBoundary < cornerOffset e + span e
      then (if isLastEdge e \<and> \<not> isPoly
            then Some (inserted, nextTexBoundary)
            else tile_loop texWidthM isPoly e
                   (inserted @ [fakeCorner e nextTexBoundary]) (nextTexBoundary + texWidthM))
      else Some (inserted, nextTexBoundary))"

text \<open>
  The outer \<^verbatim>\<open>for\<close> loop. Its iterator is moved onto the last inserted corner at
  each insertion, so its increment reaches the next source corner: the loop body runs once
  for each source corner, in order, and \<open>first\<close> is \<^verbatim>\<open>corners.begin()\<close>.
  The result is the final corner list from the current corner on.
\<close>

fun place_corners ::
  "skin option \<Rightarrow> bool \<Rightarrow> corner \<Rightarrow> corner list \<Rightarrow> real \<Rightarrow> real \<Rightarrow> corner list option" where
  "place_corners wallSkin isPoly first [] cornerOff nextTexBoundary = Some []"
| "place_corners wallSkin isPoly first (c # rest) cornerOff nextTexBoundary =
     (let next_corner = (case rest of [] \<Rightarrow> first | n # _ \<Rightarrow> n);
          bvec = vsub (base next_corner) (base c);
          spn = vlength bvec;
          c' = c\<lparr>offsetX := cornerOff\<rparr>
      in case wallSkin of
           None \<Rightarrow>
             map_option ((#) c')
               (place_corners wallSkin isPoly first rest (cornerOff + spn) nextTexBoundary)
         | Some sk \<Rightarrow>
             (case tile_loop (imageWidth sk) isPoly
                     \<lparr>this_corner = c', base_vec = vdiv bvec spn,
                      roof_vec = normalize (vsub (roof next_corner) (roof c)),
                      cornerOffset = cornerOff, span = spn, isLastEdge = (rest = [])\<rparr>
                     [] nextTexBoundary of
                None \<Rightarrow> None
              | Some (inserted, nb) \<Rightarrow>
                  map_option (\<lambda>cs. c' # inserted @ cs)
                    (place_corners wallSkin isPoly first rest (cornerOff + spn) nb)))"

definition subdivide :: "skin option \<Rightarrow> bool \<Rightarrow> corner list \<Rightarrow> corner list option" where
  "subdivide wallSkin isPoly corners =
     (case corners of
        [] \<Rightarrow> Some []
      | c # _ \<Rightarrow> place_corners wallSkin isPoly c corners 0
                  (case wallSkin of None \<Rightarrow> 0 | Some sk \<Rightarrow> imageWidth sk))"

subsection \<open>buildStructure: step 4, the faces\<close>

fun make_faces :: "bool \<Rightarrow> corner \<Rightarrow> corner list \<Rightarrow> face list" where
  "make_faces isPoly first [] = []"
| "make_faces isPoly first (c # rest) =
     (case rest of
        [] \<Rightarrow>
          (if isPoly
           then [\<lparr>left = c,
                  right = first\<lparr>offsetX := offsetX c + vlength (vsub (roof first) (roof c))\<rparr>,
                  widthM = offsetX first - offsetX c\<rparr>]
           else [])
      | n # _ \<Rightarrow>
          \<lparr>left = c, right = n, widthM = offsetX n - offsetX c\<rparr> # make_faces isPoly first rest)"

definition buildFaces :: "bool \<Rightarrow> corner list \<Rightarrow> face list" where
  "buildFaces isPoly corners =
     (case corners of [] \<Rightarrow> [] | c # _ \<Rightarrow> make_faces isPoly c corners)"

subsection \<open>buildStructure\<close>

text \<open>
  The corner list of one part after steps 1 and 2 (the local variable
  \<^verbatim>\<open>corners\<close>), and the elevation built from it.
\<close>

definition partCorners ::
  "(vec3 \<Rightarrow> vec3) option \<Rightarrow> bool \<Rightarrow> real \<Rightarrow> bool \<Rightarrow> skin option \<Rightarrow> extent \<Rightarrow> vec3 list
     \<Rightarrow> corner list option" where
  "partCorners xform isPoly hgt flatten wallSkin ext part =
     subdivide wallSkin isPoly (map (makeCorner xform hgt flatten (targetLen ext)) part)"

definition buildElevation ::
  "(vec3 \<Rightarrow> vec3) option \<Rightarrow> bool \<Rightarrow> real \<Rightarrow> bool \<Rightarrow> skin option \<Rightarrow> extent \<Rightarrow> vec3 list
     \<Rightarrow> elevation option" where
  "buildElevation xform isPoly hgt flatten wallSkin ext part =
     (let texHeightM = (case wallSkin of None \<Rightarrow> 1 | Some sk \<Rightarrow> imageHeight sk);
          maxHeight = targetLen ext - vz (minLoc ext)
      in map_option
           (\<lambda>cs. \<lparr>faces = buildFaces isPoly cs,
                  texHeightAdjustedM = adjustTexHeight maxHeight texHeightM\<rparr>)
           (partCorners xform isPoly hgt flatten wallSkin ext part))"

text \<open>The loop over the parts: a part with fewer than two points is passed over.\<close>

fun build_parts ::
  "(vec3 \<Rightarrow> vec3) option \<Rightarrow> bool \<Rightarrow> real \<Rightarrow> bool \<Rightarrow> skin option \<Rightarrow> extent \<Rightarrow> vec3 list list
     \<Rightarrow> elevation list \<Rightarrow> elevation list option" where
  "build_parts xform isPoly hgt flatten wallSkin ext [] elevs = Some elevs"
| "build_parts xform isPoly hgt flatten wallSkin ext (part # ps) elevs =
     (if length part < 2
      then build_parts xform isPoly hgt flatten wallSkin ext ps elevs
      else (case buildElevation xform isPoly hgt flatten wallSkin ext part of
              None \<Rightarrow> None
            | Some el \<Rightarrow> build_parts xform isPoly hgt flatten wallSkin ext ps (elevs @ [el])))"

text \<open>
  \<^verbatim>\<open>buildStructure\<close> fills the structure it is given and returns \<^verbatim>\<open>true\<close>;
  \<open>None\<close> means that it does not return.
\<close>

definition buildStructure ::
  "(vec3 \<Rightarrow> vec3) option \<Rightarrow> geometry \<Rightarrow> real \<Rightarrow> bool \<Rightarrow> real \<Rightarrow> skin option \<Rightarrow> structure
     \<Rightarrow> (bool \<times> structure) option" where
  "buildStructure xform input hgt flatten vertOffset wallSkin st =
     (let st1 = st\<lparr>isPolygon := isPolygonType input, verticalOffset := vertOffset\<rparr>;
          ext = zfinder \<bar>hgt\<bar> input;
          centroid = Vec3 (fst (center2d input)) (snd (center2d input)) (vz (minLoc ext));
          st2 = (case xform of None \<Rightarrow> st1 | Some t \<Rightarrow> st1\<lparr>baseCentroid := t centroid\<rparr>)
      in map_option (\<lambda>els. (True, st2\<lparr>elevations := els\<rparr>))
           (build_parts xform (isPolygon st2) hgt flatten wallSkin ext (parts input)
              (elevations st2)))"

subsection \<open>Perimeter of a corner sequence\<close>

text \<open>
  The horizontal length of the edge between two corners, as step 2 measures it, and the sum
  of these lengths along a part: a polygon counts the edge that closes it, an open line does not.
\<close>

definition next_of :: "corner \<Rightarrow> corner list \<Rightarrow> corner" where
  "next_of first rest = (case rest of [] \<Rightarrow> first | n # _ \<Rightarrow> n)"

definition edge_span :: "corner \<Rightarrow> corner \<Rightarrow> real" where
  "edge_span c n = vlength (vsub (base n) (base c))"

fun rem_len :: "bool \<Rightarrow> corner \<Rightarrow> corner list \<Rightarrow> real" where
  "rem_len isPoly first [] = 0"
| "rem_len isPoly first (c # rest) =
     (case rest of
        [] \<Rightarrow> (if isPoly then edge_span c first else 0)
      | n # _ \<Rightarrow> edge_span c n + rem_len isPoly first rest)"

definition perimeter :: "bool \<Rightarrow> corner list \<Rightarrow> real" where
  "perimeter isPoly cs = (case cs of [] \<Rightarrow> 0 | c # _ \<Rightarrow> rem_len isPoly c cs)"

subsection \<open>Example inputs\<close>

definition square :: "vec3 list" where
  "square = [Vec3 0 0 0, Vec3 10 0 0, Vec3 10 10 0, Vec3 0 10 0]"

definition demo_skin :: skin where
  "demo_skin = \<lparr>imageWidth = 4, imageHeight = 3, isTiled = True, texEnvDecal = False,
     imageBiasS = 0, imageBiasT = 0, imageScaleS = 1, imageScaleT = 1, imageLayer = 0\<rparr>"

definition demo_extent :: extent where
  "demo_extent = \<lparr>targetLen = 5, minLoc = Vec3 0 0 0, maxLoc = Vec3 0 0 0\<rparr>"

subsection \<open>Steps 1 and 2 in double arithmetic\<close>

text \<open>
  Whether step 2 inserts a corner is decided by comparing sums of rounded lengths, so the
  exact reals of the model above do not decide it at the boundary. The definitions of this
  subsection repeat steps 1 and 2 with every operation on \<^verbatim>\<open>double\<close> rounded as IEEE 754
  binary64 does by default: \<open>fl\<close> rounds a real to the nearest binary64 number, ties going
  to the even significand (\<open>rne\<close>), with the spacing of the subnormal numbers below
  \<open>2 ^ -1022\<close>; overflow to infinity is not modelled. Each operation of the source is one
  rounding: \<^verbatim>\<open>Vec3d\<close> subtraction, addition, scaling and division round every component,
  \<^verbatim>\<open>length()\<close> rounds the three products, the two sums and the square root, and
  \<^verbatim>\<open>normalize()\<close> multiplies by the rounded inverse of the length.
\<close>

definition rne :: "real \<Rightarrow> int" where
  "rne y = (let f = \<lfloor>y\<rfloor>
            in if y - of_int f < 1 / 2 then f
               else if y - of_int f > 1 / 2 then f + 1
               else if even f then f else f + 1)"

definition ulp_exp :: "real \<Rightarrow> int" where
  "ulp_exp x = max \<lfloor>log 2 \<bar>x\<bar>\<rfloor> (- 1022) - 52"

definition fl :: "real \<Rightarrow> real" where
  "fl x = (if x = 0 then 0 else of_int (rne (x / 2 powr of_int (ulp_exp x))) * 2 powr of_int (ulp_exp x))"

definition dsub :: "vec3 \<Rightarrow> vec3 \<Rightarrow> vec3" where
  "dsub a b = Vec3 (fl (vx a - vx b)) (fl (vy a - vy b)) (fl (vz a - vz b))"

definition dadd :: "vec3 \<Rightarrow> vec3 \<Rightarrow> vec3" where
  "dadd a b = Vec3 (fl (vx a + vx b)) (fl (vy a + vy b)) (fl (vz a + vz b))"

definition dscale :: "vec3 \<Rightarrow> real \<Rightarrow> vec3" where
  "dscale a k = Vec3 (fl (vx a * k)) (fl (vy a * k)) (fl (vz a * k))"

definition ddiv :: "vec3 \<Rightarrow> real \<Rightarrow> vec3" where
  "ddiv a k = Vec3 (fl (vx a / k)) (fl (vy a / k)) (fl (vz a / k))"

definition dlength :: "vec3 \<Rightarrow> real" where
  "dlength a = fl (sqrt (fl (fl (fl (vx a * vx a) + fl (vy a * vy a)) + fl (vz a * vz a))))"

definition dnormalize :: "vec3 \<Rightarrow> vec3" where
  "dnormalize a = (if dlength a > 0 then dscale a (fl (1 / dlength a)) else a)"

definition makeCorner_dbl :: "(vec3 \<Rightarrow> vec3) option \<Rightarrow> real \<Rightarrow> bool \<Rightarrow> real \<Rightarrow> vec3 \<Rightarrow> corner" where
  "makeCorner_dbl xform hgt flatten tgtLen m =
     (let b0 = m;
          r1 = (if hgt \<ge> 0
                then (if flatten then Vec3 (vx b0) (vy b0) tgtLen
                      else Vec3 (vx b0) (vy b0) (fl (vz b0 + hgt)))
                else m);
          b1 = (if hgt \<ge> 0 then b0 else Vec3 (vx b0) (vy b0) (fl (vz b0 + hgt)));
          b2 = localize xform b1;
          r2 = localize xform r1
      in \<lparr>isFromSource = True, base = b2, roof = r2,
          height = dlength (dsub r2 b2), offsetX = 0\<rparr>)"

definition fakeCorner_dbl :: "tile_edge \<Rightarrow> real \<Rightarrow> corner" where
  "fakeCorner_dbl e nextTexBoundary =
     (let advance = fl (nextTexBoundary - cornerOffset e);
          nb = dadd (base (this_corner e)) (dscale (base_vec e) advance);
          nr = dadd (roof (this_corner e)) (dscale (roof_vec e) advance)
      in \<lparr>isFromSource = False, base = nb, roof = nr,
          height = dlength (dsub nr nb), offsetX = fl (cornerOffset e + advance)\<rparr>)"

partial_function (option) tile_loop_dbl ::
  "real \<Rightarrow> bool \<Rightarrow> tile_edge \<Rightarrow> corner list \<Rightarrow> real \<Rightarrow> (corner list \<times> real) option" where
  "tile_loop_dbl texWidthM isPoly e inserted nextTexBoundary =
     (if nextTexBoundary < fl (cornerOffset e + span e)
      then (if isLastEdge e \<and> \<not> isPoly
            then Some (inserted, nextTexBoundary)
            else tile_loop_dbl texWidthM isPoly e
                   (inserted @ [fakeCorner_dbl e nextTexBoundary])
                   (fl (nextTexBoundary + texWidthM)))
      else Some (inserted, nextTexBoundary))"

fun place_corners_dbl ::
  "skin option \<Rightarrow> bool \<Rightarrow> corner \<Rightarrow> corner list \<Rightarrow> real \<Rightarrow> real \<Rightarrow> corner list option" where
  "place_corners_dbl wallSkin isPoly first [] cornerOff nextTexBoundary = Some []"
| "place_corners_dbl wallSkin isPoly first (c # rest) cornerOff nextTexBoundary =
     (let next_corner = (case rest of [] \<Rightarrow> first | n # _ \<Rightarrow> n);
          bvec = dsub (base next_corner) (base c);
          spn = dlength bvec;
          c' = c\<lparr>offsetX := cornerOff\<rparr>
      in case wallSkin of
           None \<Rightarrow>
             map_option ((#) c')
               (place_corners_dbl wallSkin isPoly first rest (fl (cornerOff + spn)) nextTexBoundary)
         | Some sk \<Rightarrow>
             (case tile_loop_dbl (imageWidth sk) isPoly
                     \<lparr>this_corner = c', base_vec = ddiv bvec spn,
                      roof_vec = dnormalize (dsub (roof next_corner) (roof c)),
                      cornerOffset = cornerOff, span = spn, isLastEdge = (rest = [])\<rparr>
                     [] nextTexBoundary of
                None \<Rightarrow> None
              | Some (inserted, nb) \<Rightarrow>
                  map_option (\<lambda>cs. c' # inserted @ cs)
                    (place_corners_dbl wallSkin isPoly first rest (fl (cornerOff + spn)) nb)))"

definition subdivide_dbl :: "skin option \<Rightarrow> bool \<Rightarrow> corner list \<Rightarrow> corner list option" where
  "subdivide_dbl wallSkin isPoly corners =
     (case corners of
        [] \<Rightarrow> Some []
      | c # _ \<Rightarrow> place_corners_dbl wallSkin isPoly c corners 0
                  (case wallSkin of None \<Rightarrow> 0 | Some sk \<Rightarrow> imageWidth sk))"

definition partCorners_dbl ::
  "(vec3 \<Rightarrow> vec3) option \<Rightarrow> bool \<Rightarrow> real \<Rightarrow> bool \<Rightarrow> skin option \<Rightarrow> extent \<Rightarrow> vec3 list
     \<Rightarrow> corner list option" where
  "partCorners_dbl xform isPoly hgt flatten wallSkin ext part =
     subdivide_dbl wallSkin isPoly (map (makeCorner_dbl xform hgt flatten (targetLen ext)) part)"

text \<open>
  The running offsets of step 2 as the code computes them: \<open>span_dbl\<close> is the rounded
  length of an edge, and \<open>running_offsets_dbl\<close> lists, for every edge that the loop may
  subdivide (all edges of a polygon, all but the closing one of an open line), the value of
  \<^verbatim>\<open>cornerOffset + span\<close> that line 430 compares with \<^verbatim>\<open>nextTexBoundary\<close>;
  the same value is the next \<^verbatim>\<open>cornerOffset\<close>.
\<close>

definition span_dbl :: "corner \<Rightarrow> corner \<Rightarrow> real" where
  "span_dbl c n = dlength (dsub (base n) (base c))"

fun edge_offsets_dbl :: "bool \<Rightarrow> corner \<Rightarrow> corner list \<Rightarrow> real \<Rightarrow> real list" where
  "edge_offsets_dbl isPoly first [] off = []"
| "edge_offsets_dbl isPoly first (c # rest) off =
     (if rest = [] \<and> \<not> isPoly then []
      else fl (off + span_dbl c (next_of first rest))
           # edge_offsets_dbl isPoly first rest (fl (off + span_dbl c (next_of first rest))))"

definition running_offsets_dbl :: "bool \<Rightarrow> corner list \<Rightarrow> real list" where
  "running_offsets_dbl isPoly cs = (case cs of [] \<Rightarrow> [] | c # _ \<Rightarrow> edge_offsets_dbl isPoly c cs 0)"

text \<open>
  An open line along the x-axis through the binary64 numbers nearest to 0.06 and 0.57, ending
  at 0.75, and a wall skin whose texture is 0.75 wide. \<open>rl_s2\<close> and \<open>rl_s3\<close> are the
  rounded lengths of its second and third edge, \<open>rl_off2\<close> and \<open>rl_top\<close> the running
  offsets after them.
\<close>

definition rl_x1 :: real where
  "rl_x1 = 1080863910568919 / 2 ^ 54"

definition rl_x2 :: real where
  "rl_x2 = 5134103575202365 / 2 ^ 53"

definition rl_s2 :: real where
  "rl_s2 = 2296835809958953 / 2 ^ 52"

definition rl_s3 :: real where
  "rl_s3 = 1621295865853379 / 2 ^ 53"

definition rl_off2 :: real where
  "rl_off2 = 2567051787601183 / 2 ^ 52"

definition rl_top :: real where
  "rl_top = 3 / 4 + 1 / 2 ^ 53"

definition rl_line :: "vec3 list" where
  "rl_line = [Vec3 0 0 0, Vec3 rl_x1 0 0, Vec3 rl_x2 0 0, Vec3 (3 / 4) 0 0]"

definition rl_skin :: skin where
  "rl_skin = \<lparr>imageWidth = 3 / 4, imageHeight = 3, isTiled = False, texEnvDecal = False,
     imageBiasS = 0, imageBiasT = 0, imageScaleS = 1, imageScaleT = 1, imageLayer = 0\<rparr>"

section \<open>The wall builder\<close>

subsection \<open>Mesh arrays\<close>

text \<open>
  The arrays of the wall \<^verbatim>\<open>osg::Geometry\<close> that \<^verbatim>\<open>buildWallGeometry\<close> touches.
  An array that the geometry does not have yet is created empty by the code, so the model
  holds the empty list for it. The object-id array of the feature index is only resized and
  handed to \<^verbatim>\<open>tagRange\<close>; it is left out.
\<close>

record wall_geometry =
  vertexArray :: "vec3 list"
  texCoordArray :: "vec3 list"
  colorArray :: "vec4 list"
  normalArray :: "vec3 list"
  anchorArray :: "vec4 list"
  primitiveSet :: "nat list"

text \<open>
  The members of the filter that the wall builder reads: \<open>styleFlatten\<close> stands for
  \<^verbatim>\<open>_style.has<ExtrusionSymbol>() && _style.get<ExtrusionSymbol>()->flatten() == true\<close>,
  and the two clamping codes are the constants of \<^verbatim>\<open>Clamping\<close>, whose values are
  defined outside the sources.
\<close>

record wall_env =
  makeStencilVolume :: bool
  gpuClamping :: bool
  styleFlatten :: bool
  clampToGround :: real
  clampToAnchor :: real

text \<open>\<^verbatim>\<open>std::vector::resize\<close> to a larger size appends value-initialised elements.\<close>

definition grow :: "'a \<Rightarrow> 'a list \<Rightarrow> nat \<Rightarrow> 'a list" where
  "grow d xs n = xs @ replicate n d"

text \<open>
  \<^verbatim>\<open>(*array)[i] = v\<close>: writing past the end of a \<^verbatim>\<open>std::vector\<close> is undefined
  behaviour, which the model reports as \<open>None\<close>. \<open>puts\<close> writes a run of values at
  consecutive indices.
\<close>

definition put :: "'a list \<Rightarrow> nat \<Rightarrow> 'a \<Rightarrow> 'a list option" where
  "put xs i v = (if i < length xs then Some (xs[i := v]) else None)"

fun puts :: "'a list \<Rightarrow> nat \<Rightarrow> 'a list \<Rightarrow> 'a list option" where
  "puts xs i [] = Some xs"
| "puts xs i (v # vs) = (case put xs i v of None \<Rightarrow> None | Some xs' \<Rightarrow> puts xs' (Suc i) vs)"

text \<open>
  Modelled from the spec: \<^verbatim>\<open>Structure::getNumPoints\<close> is declared in the header of the
  filter, which is not among the sources. The wall builder calls it for the number of wall
  vertices under the comment "6 verts per face total", and the spec counts
  6 times the total face count vertices.
\<close>

definition getNumPoints :: "structure \<Rightarrow> nat" where
  "getNumPoints st = sum_list (map (\<lambda>e. 6 * length (faces e)) (elevations st))"

subsection \<open>The values written for one face\<close>

definition face_verts :: "face \<Rightarrow> vec3 list" where
  "face_verts f = [roof (left f), base (left f), base (right f),
                   base (right f), roof (right f), roof (left f)]"

definition face_normal :: "face \<Rightarrow> vec3" where
  "face_normal f =
     (let v1 = roof (left f); v2 = base (left f); v3 = base (right f)
      in vcross (vsub v2 v1) (vsub v3 v1))"

definition face_normals :: "face \<Rightarrow> vec3 list" where
  "face_normals f =
     (let normal = face_normal f in [normal, normal, normal, normal, normal, normal])"

definition face_anchors :: "wall_env \<Rightarrow> structure \<Rightarrow> face \<Rightarrow> vec4 list" where
  "face_anchors env st f =
     (let x = vx (baseCentroid st); y = vy (baseCentroid st); vo = verticalOffset st;
          ground = Vec4 x y vo (clampToGround env)
      in if styleFlatten env
         then [Vec4 x y vo (clampToAnchor env), ground, ground, ground,
               Vec4 x y vo (clampToAnchor env), Vec4 x y vo (clampToAnchor env)]
         else [Vec4 x y (vo + height (left f)) (clampToGround env), ground, ground, ground,
               Vec4 x y (vo + height (right f)) (clampToGround env),
               Vec4 x y (vo + height (left f)) (clampToGround env)])"

definition face_colors :: "vec4 \<Rightarrow> vec4 \<Rightarrow> vec4 list" where
  "face_colors wallColor wallBaseColor =
     [wallColor, wallBaseColor, wallBaseColor, wallBaseColor, wallColor, wallColor]"

text \<open>
  In \<open>faceTex\<close> below the roof V is a quotient by \<open>texHeightAdjustedM\<close>. For a wall of
  height zero that divisor is zero and the code stores a NaN; the quotient of the model has
  no meaning there, and the statements about texture coordinates exclude that case.
\<close>

text \<open>
  The C function \<^verbatim>\<open>fmod\<close> on reals: the remainder of the division truncated towards
  zero (meaningful for a divisor other than zero).
\<close>

definition c_fmod :: "real \<Rightarrow> real \<Rightarrow> real" where
  "c_fmod a b = a - of_int (if a / b \<ge> 0 then \<lfloor>a / b\<rfloor> else \<lceil>a / b\<rceil>) * b"

definition faceTex :: "skin \<Rightarrow> elevation \<Rightarrow> face \<Rightarrow> vec3 list" where
  "faceTex sk elev f =
     (let texWidthM = imageWidth sk;
          tex_repeats_y = isTiled sk;
          hL = (if tex_repeats_y then vlength (vsub (roof (left f)) (base (left f)))
                else texHeightAdjustedM elev);
          hR = (if tex_repeats_y then vlength (vsub (roof (right f)) (base (right f)))
                else texHeightAdjustedM elev);
          uL = c_fmod (offsetX (left f)) texWidthM / texWidthM;
          uR0 = c_fmod (offsetX (right f)) texWidthM / texWidthM;
          uR = (if uR0 < uL \<or> (uL = 0 \<and> uR0 = 0) then 1 else uR0);
          texBaseL = (uL, 0);
          texBaseR = (uR, 0);
          texRoofL = (uL, hL / texHeightAdjustedM elev);
          texRoofR = (uR, hR / texHeightAdjustedM elev);
          sb = (\<lambda>t. Vec3 (imageBiasS sk + fst t * imageScaleS sk)
                         (imageBiasT sk + snd t * imageScaleT sk) (imageLayer sk))
      in [sb texRoofL, sb texBaseL, sb texBaseR, sb texBaseR, sb texRoofR, sb texRoofL])"

subsection \<open>buildWallGeometry\<close>

definition useColor :: "wall_env \<Rightarrow> skin option \<Rightarrow> bool" where
  "useColor env wallSkin =
     ((case wallSkin of None \<Rightarrow> True | Some sk \<Rightarrow> \<not> texEnvDecal sk) \<and> \<not> makeStencilVolume env)"

text \<open>The body of the inner loop: the writes for one face at \<open>vertptr\<close>.\<close>

definition wallFace ::
  "wall_env \<Rightarrow> structure \<Rightarrow> vec4 \<Rightarrow> vec4 \<Rightarrow> skin option \<Rightarrow> elevation \<Rightarrow> face \<Rightarrow> nat
     \<Rightarrow> wall_geometry \<Rightarrow> wall_geometry option" where
  "wallFace env st wallColor wallBaseColor wallSkin elev f vertptr g =
     Option.bind (puts (vertexArray g) vertptr (face_verts f)) (\<lambda>verts.
     Option.bind (puts (normalArray g) vertptr (face_normals f)) (\<lambda>normals.
     Option.bind (if gpuClamping env
                  then puts (anchorArray g) vertptr (face_anchors env st f)
                  else Some (anchorArray g)) (\<lambda>anchors.
     Option.bind (if useColor env wallSkin
                  then puts (colorArray g) vertptr (face_colors wallColor wallBaseColor)
                  else Some (colorArray g)) (\<lambda>colors.
     Option.bind (case wallSkin of
                    None \<Rightarrow> Some (texCoordArray g)
                  | Some sk \<Rightarrow> puts (texCoordArray g) vertptr (faceTex sk elev f)) (\<lambda>tex.
     Some \<lparr>vertexArray = verts, texCoordArray = tex, colorArray = colors,
           normalArray = normals, anchorArray = anchors,
           primitiveSet = primitiveSet g @ [vertptr ..< vertptr + 6]\<rparr>)))))"

fun wall_faces ::
  "wall_env \<Rightarrow> structure \<Rightarrow> vec4 \<Rightarrow> vec4 \<Rightarrow> skin option \<Rightarrow> elevation \<Rightarrow> face list \<Rightarrow> nat
     \<Rightarrow> wall_geometry \<Rightarrow> (nat \<times> wall_geometry) option" where
  "wall_faces env st wc wbc wallSkin elev [] vertptr g = Some (vertptr, g)"
| "wall_faces env st wc wbc wallSkin elev (f # fs) vertptr g =
     (case wallFace env st wc wbc wallSkin elev f vertptr g of
        None \<Rightarrow> None
      | Some g' \<Rightarrow> wall_faces env st wc wbc wallSkin elev fs (vertptr + 6) g')"

fun wall_elevations ::
  "wall_env \<Rightarrow> structure \<Rightarrow> vec4 \<Rightarrow> vec4 \<Rightarrow> skin option \<Rightarrow> elevation list \<Rightarrow> nat
     \<Rightarrow> wall_geometry \<Rightarrow> (nat \<times> wall_geometry) option" where
  "wall_elevations env st wc wbc wallSkin [] vertptr g = Some (vertptr, g)"
| "wall_elevations env st wc wbc wallSkin (elev # es) vertptr g =
     (case wall_faces env st wc wbc wallSkin elev (faces elev) vertptr g of
        None \<Rightarrow> None
      | Some (vertptr', g') \<Rightarrow> wall_elevations env st wc wbc wallSkin es vertptr' g')"

text \<open>
  \<^verbatim>\<open>buildWallGeometry\<close> returns \<^verbatim>\<open>madeGeom\<close>, which is true, and the geometry
  it has filled; \<open>None\<close> stands for a write outside an array.
\<close>

definition buildWallGeometry ::
  "wall_env \<Rightarrow> structure \<Rightarrow> wall_geometry \<Rightarrow> vec4 \<Rightarrow> vec4 \<Rightarrow> skin option
     \<Rightarrow> (bool \<times> wall_geometry) option" where
  "buildWallGeometry env st walls wallColor wallBaseColor wallSkin =
     (let numWallVerts = getNumPoints st;
          vertptr = length (vertexArray walls);
          g1 = walls\<lparr>vertexArray := grow (Vec3 0 0 0) (vertexArray walls) numWallVerts\<rparr>;
          g2 = (case wallSkin of
                  None \<Rightarrow> g1
                | Some sk \<Rightarrow>
                    g1\<lparr>texCoordArray := grow (Vec3 0 0 0) (texCoordArray g1) numWallVerts\<rparr>);
          g3 = (if useColor env wallSkin
                then g2\<lparr>colorArray := grow (Vec4 0 0 0 0) (colorArray g2) numWallVerts\<rparr>
                else g2);
          g4 = g3\<lparr>normalArray := grow (Vec3 0 0 0) (normalArray g3) numWallVerts\<rparr>;
          g5 = (if gpuClamping env
                then g4\<lparr>anchorArray := grow (Vec4 0 0 0 0) (anchorArray g4) numWallVerts\<rparr>
                else g4)
      in map_option (\<lambda>r. (True, snd r))
           (wall_elevations env st wallColor wallBaseColor wallSkin (elevations st) vertptr g5))"

subsection \<open>The effect of the wall builder on the arrays\<close>

text \<open>
  \<open>splice xs i vs\<close> is \<open>xs\<close> with the run \<open>vs\<close> written from index \<open>i\<close> on;
  \<open>struct_faces\<close> lists the faces in the order of the two nested loops, each with its
  elevation; \<open>wrote\<close> is the geometry after the writes for a list of faces, \<open>fits\<close>
  says that these writes stay inside the arrays in use, \<open>aligned\<close> that the arrays in
  use are as long as the vertex array, and \<open>wall_start\<close> is the geometry after the resizing.
\<close>

definition splice :: "'a list \<Rightarrow> nat \<Rightarrow> 'a list \<Rightarrow> 'a list" where
  "splice xs i vs = take i xs @ vs @ drop (i + length vs) xs"

definition struct_faces :: "elevation list \<Rightarrow> (elevation \<times> face) list" where
  "struct_faces es = concat (map (\<lambda>e. map (Pair e) (faces e)) es)"

definition all_faces :: "structure \<Rightarrow> face list" where
  "all_faces st = concat (map faces (elevations st))"

definition fits :: "wall_env \<Rightarrow> skin option \<Rightarrow> nat \<Rightarrow> nat \<Rightarrow> wall_geometry \<Rightarrow> bool" where
  "fits env wallSkin p n g =
     (p + n \<le> length (vertexArray g) \<and> p + n \<le> length (normalArray g)
      \<and> (gpuClamping env \<longrightarrow> p + n \<le> length (anchorArray g))
      \<and> (useColor env wallSkin \<longrightarrow> p + n \<le> length (colorArray g))
      \<and> (wallSkin \<noteq> None \<longrightarrow> p + n \<le> length (texCoordArray g)))"

definition wrote ::
  "wall_env \<Rightarrow> structure \<Rightarrow> vec4 \<Rightarrow> vec4 \<Rightarrow> skin option \<Rightarrow> (elevation \<times> face) list \<Rightarrow> nat
     \<Rightarrow> wall_geometry \<Rightarrow> wall_geometry" where
  "wrote env st wc wbc wallSkin efs p g =
     \<lparr>vertexArray = splice (vertexArray g) p (concat (map (\<lambda>ef. face_verts (snd ef)) efs)),
      texCoordArray =
        (case wallSkin of
           None \<Rightarrow> texCoordArray g
         | Some sk \<Rightarrow> splice (texCoordArray g) p
                        (concat (map (\<lambda>ef. faceTex sk (fst ef) (snd ef)) efs))),
      colorArray =
        (if useColor env wallSkin
         then splice (colorArray g) p (concat (map (\<lambda>ef. face_colors wc wbc) efs))
         else colorArray g),
      normalArray = splice (normalArray g) p (concat (map (\<lambda>ef. face_normals (snd ef)) efs)),
      anchorArray =
        (if gpuClamping env
         then splice (anchorArray g) p (concat (map (\<lambda>ef. face_anchors env st (snd ef)) efs))
         else anchorArray g),
      primitiveSet = primitiveSet g @ [p ..< p + 6 * length efs]\<rparr>"

definition aligned :: "wall_env \<Rightarrow> skin option \<Rightarrow> wall_geometry \<Rightarrow> bool" where
  "aligned env wallSkin g =
     (length (normalArray g) = length (vertexArray g)
      \<and> (gpuClamping env \<longrightarrow> length (anchorArray g) = length (vertexArray g))
      \<and> (useColor env wallSkin \<longrightarrow> length (colorArray g) = length (vertexArray g))
      \<and> (wallSkin \<noteq> None \<longrightarrow> length (texCoordArray g) = length (vertexArray g)))"

definition wall_start :: "wall_env \<Rightarrow> skin option \<Rightarrow> nat \<Rightarrow> wall_geometry \<Rightarrow> wall_geometry" where
  "wall_start env wallSkin n walls =
     \<lparr>vertexArray = grow (Vec3 0 0 0) (vertexArray walls) n,
      texCoordArray = (case wallSkin of None \<Rightarrow> texCoordArray walls
                        | Some sk \<Rightarrow> grow (Vec3 0 0 0) (texCoordArray walls) n),
      colorArray = (if useColor env wallSkin then grow (Vec4 0 0 0 0) (colorArray walls) n
                    else colorArray walls),
      normalArray = grow (Vec3 0 0 0) (normalArray walls) n,
      anchorArray = (if gpuClamping env then grow (Vec4 0 0 0 0) (anchorArray walls) n
                     else anchorArray walls),
      primitiveSet = primitiveSet walls\<rparr>"

subsection \<open>Wall texture coordinates in words\<close>

text \<open>
  The texture coordinates of the six vertices of a face before scale and bias:
  \<open>claimed_uv\<close> gives every roof vertex the wall height over the adjusted texture height;
  \<open>amended_uv\<close> does so for a tiled skin only and gives the roof vertices of the other
  skins V = 1.
\<close>

definition scale_bias :: "skin \<Rightarrow> real \<times> real \<Rightarrow> vec3" where
  "scale_bias sk uv = Vec3 (imageBiasS sk + fst uv * imageScaleS sk)
                           (imageBiasT sk + snd uv * imageScaleT sk) (imageLayer sk)"

definition wall_height :: "corner \<Rightarrow> real" where
  "wall_height c = vlength (vsub (roof c) (base c))"

definition left_u :: "skin \<Rightarrow> face \<Rightarrow> real" where
  "left_u sk f = c_fmod (offsetX (left f)) (imageWidth sk) / imageWidth sk"

definition right_u :: "skin \<Rightarrow> face \<Rightarrow> real" where
  "right_u sk f =
     (let r = c_fmod (offsetX (right f)) (imageWidth sk) / imageWidth sk
      in if r < left_u sk f \<or> (left_u sk f = 0 \<and> r = 0) then 1 else r)"

definition claimed_uv :: "skin \<Rightarrow> elevation \<Rightarrow> face \<Rightarrow> (real \<times> real) list" where
  "claimed_uv sk elev f =
     [(left_u sk f, wall_height (left f) / texHeightAdjustedM elev),
      (left_u sk f, 0), (right_u sk f, 0), (right_u sk f, 0),
      (right_u sk f, wall_height (right f) / texHeightAdjustedM elev),
      (left_u sk f, wall_height (left f) / texHeightAdjustedM elev)]"

definition roof_v :: "skin \<Rightarrow> elevation \<Rightarrow> corner \<Rightarrow> real" where
  "roof_v sk elev c =
     (if isTiled sk then wall_height c / texHeightAdjustedM elev else 1)"

definition amended_uv :: "skin \<Rightarrow> elevation \<Rightarrow> face \<Rightarrow> (real \<times> real) list" where
  "amended_uv sk elev f =
     [(left_u sk f, roof_v sk elev (left f)),
      (left_u sk f, 0), (right_u sk f, 0), (right_u sk f, 0),
      (right_u sk f, roof_v sk elev (right f)),
      (left_u sk f, roof_v sk elev (left f))]"

subsection \<open>Example inputs of the wall builder\<close>

definition demo_face :: face where
  "demo_face =
     \<lparr>left = \<lparr>isFromSource = True, base = Vec3 0 0 0, roof = Vec3 0 0 5, height = 5, offsetX = 0\<rparr>,
      right = \<lparr>isFromSource = True, base = Vec3 10 0 0, roof = Vec3 10 0 5, height = 5,
               offsetX = 10\<rparr>,
      widthM = 10\<rparr>"

definition demo_elevation :: elevation where
  "demo_elevation = \<lparr>faces = [demo_face], texHeightAdjustedM = 5 / 2\<rparr>"

definition demo_structure :: "structure" where
  "demo_structure = \<lparr>isPolygon = False, elevations = [demo_elevation], verticalOffset = 0,
     baseCentroid = Vec3 0 0 0\<rparr>"

definition demo_input :: geometry where
  "demo_input = \<lparr>isPolygonType = False, parts = [[Vec3 0 0 0, Vec3 10 0 0]], center2d = (5, 0)\<rparr>"

definition empty_structure :: "structure" where
  "empty_structure = \<lparr>isPolygon = False, elevations = [], verticalOffset = 0,
     baseCentroid = Vec3 0 0 0\<rparr>"

definition plain_skin :: skin where
  "plain_skin = \<lparr>imageWidth = 20, imageHeight = 3, isTiled = False, texEnvDecal = False,
     imageBiasS = 0, imageBiasT = 0, imageScaleS = 1, imageScaleT = 1, imageLayer = 0\<rparr>"

definition empty_walls :: wall_geometry where
  "empty_walls = \<lparr>vertexArray = [], texCoordArray = [], colorArray = [], normalArray = [],
     anchorArray = [], primitiveSet = []\<rparr>"

definition demo_env :: wall_env where
  "demo_env = \<lparr>makeStencilVolume = False, gpuClamping = False, styleFlatten = False,
     clampToGround = 0, clampToAnchor = 1\<rparr>"

definition white :: vec4 where
  "white = Vec4 1 1 1 1"

section \<open>The apparent rotation of a shape\<close>








subsection \<open>Edges and angles in words\<close>






section \<open>Styles, reset and push\<close>

text \<open>
  The symbols of a style and the members of the filter that \<^verbatim>\<open>reset\<close> assigns.
  A style answers \<^verbatim>\<open>get<Symbol>()\<close> with the symbol or with null; the context gives
  the style sheet of the session, if there is one, as a lookup of styles by name.
  The part of \<^verbatim>\<open>push\<close> that follows the test of the extrusion symbol (resource
  libraries, \<^verbatim>\<open>process\<close>, grouping of the geodes) is a parameter \<open>extrude\<close>
  of the model.
\<close>

datatype clamping = CLAMP_NONE | CLAMP_TO_TERRAIN | CLAMP_RELATIVE_TO_TERRAIN | CLAMP_ABSOLUTE

datatype technique = TECHNIQUE_MAP | TECHNIQUE_SCENE | TECHNIQUE_GPU | TECHNIQUE_DRAPE

record altitude_symbol =
  clamping :: clamping
  technique :: technique

record extrusion_symbol =
  heightExpression :: "string option"
  heightValue :: "real option"
  wallStyleName :: "string option"
  roofStyleName :: "string option"

record polygon_symbol =
  outline :: bool

record skin_symbol =
  library :: "string option"

record line_symbol =
  strokeWidth :: "real option"

record style =
  extrusionOf :: "extrusion_symbol option"
  altitudeOf :: "altitude_symbol option"
  skinOf :: "skin_symbol option"
  polygonOf :: "polygon_symbol option"
  lineOf :: "line_symbol option"

record filter_context =
  styles :: "(string \<Rightarrow> style option) option"

datatype node = Group (children: "node list") | Geode "wall_geometry list"

datatype diagnostic = Warning string

record extrude_filter =
  mergeGeometry :: bool
  wallAngleThresh_deg :: real
  cosWallAngleThresh :: real
  style :: style
  styleDirty :: bool
  stencilVolume :: bool
  gpuClampingFlag :: bool
  heightExpr :: "string option"
  wallSkinSymbol :: "skin_symbol option"
  wallPolygonSymbol :: "polygon_symbol option"
  roofSkinSymbol :: "skin_symbol option"
  roofPolygonSymbol :: "polygon_symbol option"
  extrusionSymbol :: "extrusion_symbol option"
  outlineSymbol :: "line_symbol option"
  polySymbol :: "polygon_symbol option"
  geodes :: "node list"

definition empty_style :: style where
  "empty_style = \<lparr>extrusionOf = None, altitudeOf = None, skinOf = None, polygonOf = None,
     lineOf = None\<rparr>"

definition new_filter :: extrude_filter where
  "new_filter =
     \<lparr>mergeGeometry = True, wallAngleThresh_deg = 60, cosWallAngleThresh = cos 60,
      style = empty_style, styleDirty = True, stencilVolume = False, gpuClampingFlag = False,
      heightExpr = None, wallSkinSymbol = None, wallPolygonSymbol = None,
      roofSkinSymbol = None, roofPolygonSymbol = None, extrusionSymbol = None,
      outlineSymbol = None, polySymbol = None, geodes = []\<rparr>"

definition setStyle :: "extrude_filter \<Rightarrow> style \<Rightarrow> extrude_filter" where
  "setStyle flt s = flt\<lparr>style := s, styleDirty := True\<rparr>"

definition lookup_style :: "filter_context \<Rightarrow> string option \<Rightarrow> style option" where
  "lookup_style ctx name =
     (case (name, styles ctx) of
        (Some n, Some sheet) \<Rightarrow> sheet n
      | _ \<Rightarrow> None)"

definition use_height_expression :: "extrusion_symbol \<Rightarrow> extrude_filter \<Rightarrow> extrude_filter" where
  "use_height_expression ext flt =
     (case heightExpression ext of None \<Rightarrow> flt | Some e \<Rightarrow> flt\<lparr>heightExpr := Some e\<rparr>)"

definition use_altitude :: "extrusion_symbol \<Rightarrow> extrude_filter \<Rightarrow> extrude_filter" where
  "use_altitude ext flt =
     (case altitudeOf (style flt) of
        None \<Rightarrow> flt
      | Some alt \<Rightarrow>
          (let f1 = (if heightExpression ext = None \<and> heightValue ext = None
                        \<and> (clamping alt = CLAMP_ABSOLUTE
                             \<or> clamping alt = CLAMP_RELATIVE_TO_TERRAIN)
                     then flt\<lparr>heightExpr := Some ''0-[__max_hat]''\<rparr> else flt)
           in if technique alt = TECHNIQUE_GPU then f1\<lparr>gpuClampingFlag := True\<rparr> else f1))"

definition use_wall_style :: "extrusion_symbol \<Rightarrow> filter_context \<Rightarrow> extrude_filter \<Rightarrow> extrude_filter" where
  "use_wall_style ext ctx flt =
     (case lookup_style ctx (wallStyleName ext) of
        None \<Rightarrow> flt
      | Some wallStyle \<Rightarrow>
          flt\<lparr>wallSkinSymbol := skinOf wallStyle, wallPolygonSymbol := polygonOf wallStyle\<rparr>)"

definition use_roof_style :: "extrusion_symbol \<Rightarrow> filter_context \<Rightarrow> extrude_filter \<Rightarrow> extrude_filter" where
  "use_roof_style ext ctx flt =
     (case lookup_style ctx (roofStyleName ext) of
        None \<Rightarrow> flt
      | Some roofStyle \<Rightarrow>
          flt\<lparr>roofSkinSymbol := skinOf roofStyle, roofPolygonSymbol := polygonOf roofStyle\<rparr>)"

definition no_outline_if :: "polygon_symbol option \<Rightarrow> extrude_filter \<Rightarrow> extrude_filter" where
  "no_outline_if poly flt =
     (case poly of
        None \<Rightarrow> flt
      | Some p \<Rightarrow> if outline p = False then flt\<lparr>outlineSymbol := None\<rparr> else flt)"

definition use_outline :: "extrude_filter \<Rightarrow> extrude_filter" where
  "use_outline flt =
     (let f1 = flt\<lparr>outlineSymbol := lineOf (style flt)\<rparr>;
          f2 = no_outline_if (wallPolygonSymbol f1) f1
      in no_outline_if (roofPolygonSymbol f2) f2)"

text \<open>The branch of \<^verbatim>\<open>reset\<close> taken when the style has an extrusion symbol.\<close>

definition reset_extrusion :: "extrusion_symbol \<Rightarrow> filter_context \<Rightarrow> extrude_filter \<Rightarrow> extrude_filter" where
  "reset_extrusion ext ctx flt =
     use_outline (use_roof_style ext ctx (use_wall_style ext ctx
       (use_altitude ext (use_height_expression ext flt))))"

definition backup_skin :: "extrude_filter \<Rightarrow> extrude_filter" where
  "backup_skin flt =
     (case skinOf (style flt) of
        None \<Rightarrow> flt
      | Some skin \<Rightarrow>
          (let f1 = (if wallSkinSymbol flt = None then flt\<lparr>wallSkinSymbol := Some skin\<rparr> else flt)
           in if roofSkinSymbol f1 = None then f1\<lparr>roofSkinSymbol := Some skin\<rparr> else f1))"

definition backup_polygon :: "extrude_filter \<Rightarrow> extrude_filter" where
  "backup_polygon flt =
     (let f1 = flt\<lparr>polySymbol := polygonOf (style flt)\<rparr>
      in case polySymbol f1 of
           None \<Rightarrow> f1
         | Some poly \<Rightarrow>
             (let f2 = (if wallPolygonSymbol f1 = None
                        then f1\<lparr>wallPolygonSymbol := Some poly\<rparr> else f1)
              in if roofPolygonSymbol f2 = None
                 then f2\<lparr>roofPolygonSymbol := Some poly\<rparr> else f2))"

definition clear_symbols :: "extrude_filter \<Rightarrow> extrude_filter" where
  "clear_symbols flt =
     flt\<lparr>wallSkinSymbol := None, wallPolygonSymbol := None, roofSkinSymbol := None,
         roofPolygonSymbol := None, extrusionSymbol := None, outlineSymbol := None,
         gpuClampingFlag := False\<rparr>"

definition reset :: "extrude_filter \<Rightarrow> filter_context \<Rightarrow> extrude_filter" where
  "reset flt ctx =
     (let f0 = flt\<lparr>cosWallAngleThresh := cos (wallAngleThresh_deg flt), geodes := []\<rparr>
      in if styleDirty f0
         then
           (let f1 = clear_symbols f0;
                f2 = f1\<lparr>extrusionSymbol := extrusionOf (style f1)\<rparr>;
                f3 = (case extrusionSymbol f2 of
                        None \<Rightarrow> f2
                      | Some ext \<Rightarrow> reset_extrusion ext ctx f2)
            in (backup_polygon (backup_skin f3))\<lparr>styleDirty := False\<rparr>)
         else f0)"

definition missing_extrusion_warning :: diagnostic where
  "missing_extrusion_warning =
     Warning ''[ExtrudeGeometryFilter] Missing required extrusion symbolology; geometry will be empty''"

definition push ::
  "(extrude_filter \<Rightarrow> 'f list \<Rightarrow> filter_context \<Rightarrow> extrude_filter \<times> node \<times> diagnostic list)
     \<Rightarrow> extrude_filter \<Rightarrow> 'f list \<Rightarrow> filter_context \<Rightarrow> extrude_filter \<times> node \<times> diagnostic list" where
  "push extrude flt input ctx =
     (let flt1 = reset flt ctx
      in case extrusionSymbol flt1 of
           None \<Rightarrow> (flt1, Group [], [missing_extrusion_warning])
         | Some ext \<Rightarrow> extrude flt1 input ctx)"

text \<open>An example of a continuation of push: it returns a group with one empty geode.\<close>

definition one_geode :: "extrude_filter \<Rightarrow> nat list \<Rightarrow> filter_context \<Rightarrow> extrude_filter \<times> node \<times> diagnostic list" where
  "one_geode flt input ctx = (flt, Group [Geode []], [])"

text \<open>
  \<open>cache_valid\<close>: the cached extrusion symbol is the one of the style unless the style is
  marked dirty. \<open>same_core\<close>: two filter states agree on the extrusion symbol, the style
  and the geodes.
\<close>

definition cache_valid :: "extrude_filter \<Rightarrow> bool" where
  "cache_valid flt = (styleDirty flt \<or> extrusionSymbol flt = extrusionOf (style flt))"

definition same_core :: "extrude_filter \<Rightarrow> extrude_filter \<Rightarrow> bool" where
  "same_core f g = (extrusionSymbol f = extrusionSymbol g \<and> style f = style g
                    \<and> geodes f = geodes g)"

section \<open>Properties of the structure builder\<close>

lemmas vec_defs = vsub_def vadd_def vscale_def vdiv_def vlength_def length2_def normalize_def

lemma length_make_faces:
  "length (make_faces isPoly first cs) = (if isPoly then length cs else length cs - 1)"
proof (induction cs)
  case Nil
  then show ?case by simp
next
  case (Cons c rest)
  then show ?case by (cases rest) simp_all
qed

lemma length_buildFaces:
  "length (buildFaces isPoly cs) = (if isPoly then length cs else length cs - 1)"
  by (cases cs) (simp_all add: buildFaces_def length_make_faces del: make_faces.simps)

lemma tile_loop_grows:
  assumes "tile_loop w isPoly e ins nb = Some r"
  shows "\<exists>new. fst r = ins @ new \<and> (\<forall>c \<in> set new. \<not> isFromSource c)"
  using assms
proof (induction rule: tile_loop.raw_induct[rotated 1, consumes 1])
  case (1 tile_loop w isPoly e ins nb r)
  show ?case
  proof (cases "nb < cornerOffset e + span e \<and> \<not> (isLastEdge e \<and> \<not> isPoly)")
    case True
    with 1(2) have "tile_loop w isPoly e (ins @ [fakeCorner e nb]) (nb + w) = Some r"
      by (simp split: if_splits)
    from 1(1)[OF this] obtain new where
      "fst r = (ins @ [fakeCorner e nb]) @ new" "\<forall>c \<in> set new. \<not> isFromSource c" by blast
    then have "fst r = ins @ (fakeCorner e nb # new) \<and> (\<forall>c \<in> set (fakeCorner e nb # new). \<not> isFromSource c)"
      by (simp add: fakeCorner_def Let_def)
    then show ?thesis by blast
  next
    case False
    with 1(2) have "r = (ins, nb)" by (auto split: if_splits)
    then show ?thesis by simp
  qed
qed

lemma vlength_nonneg: "0 \<le> vlength a"
  by (simp add: vlength_def length2_def)

lemma tile_loop_skip:
  "\<not> nb < cornerOffset e + span e \<or> (isLastEdge e \<and> \<not> isPoly)
     \<Longrightarrow> tile_loop w isPoly e ins nb = Some (ins, nb)"
  by (subst tile_loop.simps) auto

lemma tile_loop_step:
  "nb < cornerOffset e + span e \<Longrightarrow> \<not> (isLastEdge e \<and> \<not> isPoly)
     \<Longrightarrow> tile_loop w isPoly e ins nb
         = tile_loop w isPoly e (ins @ [fakeCorner e nb]) (nb + w)"
  by (subst tile_loop.simps) auto

lemma place_corners_ConsE:
  assumes "place_corners ws isPoly first (c # rest) off nb = Some out"
  obtains inserted nb' out' where
    "out = c\<lparr>offsetX := off\<rparr> # inserted @ out'"
    "\<forall>x \<in> set inserted. \<not> isFromSource x"
    "place_corners ws isPoly first rest (off + edge_span c (next_of first rest)) nb' = Some out'"
    "ws = None \<longrightarrow> inserted = [] \<and> nb' = nb"
proof (cases ws)
  case None
  with assms obtain out' where
    "place_corners ws isPoly first rest (off + edge_span c (next_of first rest)) nb = Some out'"
    "out = c\<lparr>offsetX := off\<rparr> # out'"
    by (auto simp: Let_def next_of_def edge_span_def)
  then show ?thesis using None by (intro that[of "[]" out' nb]) auto
next
  case (Some sk)
  let ?e = "\<lparr>this_corner = c\<lparr>offsetX := off\<rparr>,
             base_vec = vdiv (vsub (base (next_of first rest)) (base c)) (edge_span c (next_of first rest)),
             roof_vec = normalize (vsub (roof (next_of first rest)) (roof c)),
             cornerOffset = off, span = edge_span c (next_of first rest), isLastEdge = (rest = [])\<rparr>"
  from assms Some obtain inserted nb' where
    tl: "tile_loop (imageWidth sk) isPoly ?e [] nb = Some (inserted, nb')"
    by (auto simp: Let_def next_of_def edge_span_def split: option.splits)
  with assms Some obtain out' where
    "place_corners ws isPoly first rest (off + edge_span c (next_of first rest)) nb' = Some out'"
    "out = c\<lparr>offsetX := off\<rparr> # inserted @ out'"
    by (auto simp: Let_def next_of_def edge_span_def split: option.splits)
  moreover from tile_loop_grows[OF tl] have "\<forall>x \<in> set inserted. \<not> isFromSource x" by simp
  ultimately show ?thesis using Some by (intro that[of inserted out' nb']) auto
qed

lemma place_corners_sources:
  assumes "place_corners ws isPoly first cs off nb = Some out"
    and "\<forall>c \<in> set cs. isFromSource c"
  shows "map base (filter isFromSource out) = map base cs
       \<and> map roof (filter isFromSource out) = map roof cs
       \<and> length cs \<le> length out"
  using assms
proof (induction cs arbitrary: off nb out)
  case Nil
  then show ?case by simp
next
  case (Cons c rest)
  from Cons.prems(1) obtain inserted nb' out' where
    out: "out = c\<lparr>offsetX := off\<rparr> # inserted @ out'"
    and ins: "\<forall>x \<in> set inserted. \<not> isFromSource x"
    and rec: "place_corners ws isPoly first rest (off + edge_span c (next_of first rest)) nb' = Some out'"
    by (rule place_corners_ConsE)
  from Cons.IH[OF rec] Cons.prems(2)
  have "map base (filter isFromSource out') = map base rest
      \<and> map roof (filter isFromSource out') = map roof rest \<and> length rest \<le> length out'"
    by simp
  moreover have "filter isFromSource inserted = []" using ins by (simp add: filter_empty_conv)
  ultimately show ?case using out Cons.prems(2) by simp
qed

lemma tile_loop_stuck:
  assumes "tile_loop w isPoly e ins nb = Some r"
  shows "\<not> (w \<le> 0 \<and> nb < cornerOffset e + span e \<and> \<not> (isLastEdge e \<and> \<not> isPoly))"
  using assms
proof (induction rule: tile_loop.raw_induct[rotated 1, consumes 1])
  case (1 tile_loop w isPoly e ins nb r)
  show ?case
  proof
    assume a: "w \<le> 0 \<and> nb < cornerOffset e + span e \<and> \<not> (isLastEdge e \<and> \<not> isPoly)"
    with 1(2) have "tile_loop w isPoly e (ins @ [fakeCorner e nb]) (nb + w) = Some r"
      by (simp split: if_splits)
    from 1(1)[OF this] a show False by simp
  qed
qed

lemma tile_loop_diverges:
  "w \<le> 0 \<Longrightarrow> nb < cornerOffset e + span e \<Longrightarrow> \<not> (isLastEdge e \<and> \<not> isPoly)
     \<Longrightarrow> tile_loop w isPoly e ins nb = None"
  using tile_loop_stuck[of w isPoly e ins nb] by (cases "tile_loop w isPoly e ins nb") auto

lemma makeCorner_source: "isFromSource (makeCorner xform hgt flatten tgt m)"
  by (simp add: makeCorner_def Let_def)

lemma build_parts_those:
  "build_parts xform isPoly hgt flatten wallSkin ext ps elevs =
     map_option ((@) elevs)
       (those (map (buildElevation xform isPoly hgt flatten wallSkin ext)
                 (filter (\<lambda>p. 2 \<le> length p) ps)))"
proof (induction ps arbitrary: elevs)
  case Nil
  then show ?case by simp
next
  case (Cons part ps)
  show ?case
  proof (cases "length part < 2")
    case True
    then show ?thesis by (simp add: Cons.IH)
  next
    case False
    then show ?thesis
      by (cases "buildElevation xform isPoly hgt flatten wallSkin ext part")
         (simp_all add: Cons.IH option.map_comp comp_def split: option.splits)
  qed
qed

subsection \<open>Termination of the subdivision\<close>

text \<open>
  With no wall skin, or with a wall skin of positive texture width, the subdivision ends on
  every part and buildStructure returns.
\<close>

lemma tile_loop_terminates:
  assumes "0 < w"
  shows "\<exists>r. tile_loop w isPoly e ins nb = Some r"
proof (induction "nat \<lceil>(cornerOffset e + span e - nb) / w\<rceil>" arbitrary: ins nb)
  case 0
  then have "(cornerOffset e + span e - nb) / w \<le> 0" by simp
  with assms have "\<not> nb < cornerOffset e + span e" by (simp add: divide_le_0_iff)
  then show ?case by (simp add: tile_loop_skip)
next
  case (Suc n)
  show ?case
  proof (cases "nb < cornerOffset e + span e \<and> \<not> (isLastEdge e \<and> \<not> isPoly)")
    case True
    have "(cornerOffset e + span e - (nb + w)) / w = (cornerOffset e + span e - nb) / w - 1"
      using assms by (simp add: field_simps)
    then have "nat \<lceil>(cornerOffset e + span e - (nb + w)) / w\<rceil> = n"
      using Suc.hyps(2) by simp
    from Suc.hyps(1)[OF this[symmetric]] True show ?thesis by (simp add: tile_loop_step)
  next
    case False
    then show ?thesis by (auto simp: tile_loop_skip)
  qed
qed

lemma place_corners_returns:
  assumes "\<forall>sk. wallSkin = Some sk \<longrightarrow> 0 < imageWidth sk"
  shows "\<exists>out. place_corners wallSkin isPoly first cs off nb = Some out"
proof (induction cs arbitrary: off nb)
  case Nil
  then show ?case by simp
next
  case (Cons c rest)
  show ?case
  proof (cases wallSkin)
    case None
    with Cons.IH show ?thesis by (simp add: Let_def)
  next
    case (Some sk)
    with assms have w: "0 < imageWidth sk" by simp
    let ?e = "\<lparr>this_corner = c\<lparr>offsetX := off\<rparr>,
             base_vec = vdiv (vsub (base (next_of first rest)) (base c)) (edge_span c (next_of first rest)),
             roof_vec = normalize (vsub (roof (next_of first rest)) (roof c)),
             cornerOffset = off, span = edge_span c (next_of first rest), isLastEdge = (rest = [])\<rparr>"
    from tile_loop_terminates[OF w, of isPoly ?e "[]" nb] obtain inserted nb' where
      tl: "tile_loop (imageWidth sk) isPoly ?e [] nb = Some (inserted, nb')" by auto
    from Cons.IH[of "off + edge_span c (next_of first rest)" nb'] obtain out' where
      "place_corners wallSkin isPoly first rest (off + edge_span c (next_of first rest)) nb' = Some out'"
      by blast
    with tl Some show ?thesis by (simp add: Let_def next_of_def edge_span_def)
  qed
qed

lemma buildStructure_returns:
  assumes "\<forall>sk. wallSkin = Some sk \<longrightarrow> 0 < imageWidth sk"
  shows "\<exists>st'. buildStructure xform input hgt flatten vertOffset wallSkin st = Some (True, st')"
proof -
  have sub: "\<exists>cs. subdivide wallSkin isPoly src = Some cs" for isPoly src
    using place_corners_returns[OF assms]
    by (cases src) (simp_all add: subdivide_def del: place_corners.simps)
  have el: "\<exists>el. buildElevation xform isPoly hgt flatten wallSkin ext part = Some el"
    for isPoly ext part
    using sub[of isPoly "map (makeCorner xform hgt flatten (targetLen ext)) part"]
    by (auto simp: buildElevation_def partCorners_def Let_def)
  have "\<exists>els. build_parts xform isPoly hgt flatten wallSkin ext ps elevs = Some els"
    for isPoly ext ps elevs
  proof (induction ps arbitrary: elevs)
    case Nil
    then show ?case by simp
  next
    case (Cons part ps)
    from el obtain e where "buildElevation xform isPoly hgt flatten wallSkin ext part = Some e"
      by blast
    with Cons.IH show ?case by simp
  qed
  then show ?thesis by (simp add: buildStructure_def Let_def)
qed

subsection \<open>Adjusted wall texture height\<close>

lemma osg_round_pos_iff: "osg_round v > 0 \<longleftrightarrow> 1 / 2 \<le> v"
proof (cases "v \<ge> 0")
  case True
  have "(0 < \<lfloor>v + 1 / 2\<rfloor>) = (1 / 2 \<le> v)" by linarith
  with True show ?thesis by (simp add: osg_round_def)
next
  case False
  then have "\<lceil>v - 1 / 2\<rceil> \<le> 0" by linarith
  with False show ?thesis by (simp add: osg_round_def)
qed

lemma adjust_nonneg: "0 \<le> maxHeight \<Longrightarrow> 0 \<le> adjustTexHeight maxHeight texHeightM"
  by (simp add: adjustTexHeight_def Let_def)

text \<open>
  Claim C10. For a wall texture height \<open>texHeightM > 0\<close>, the elevation of every part gets
  \<open>texHeightAdjustedM = maxHeight / round (maxHeight / texHeightM)\<close> exactly when the
  rounded quotient is strictly positive, which is the case exactly when the wall is at least
  half a texture high; otherwise it gets \<open>maxHeight\<close> itself. The divisor used is never
  zero, and the result is nonnegative whenever \<open>maxHeight\<close> is.
\<close>

theorem texHeightAdjusted_safe:
  assumes "texHeightM > 0"
    and "buildElevation xform isPoly hgt flatten wallSkin ext part = Some el"
    and "texHeightM = (case wallSkin of None \<Rightarrow> 1 | Some sk \<Rightarrow> imageHeight sk)"
    and "maxHeight = targetLen ext - vz (minLoc ext)"
  shows "(osg_round (maxHeight / texHeightM) > 0 \<longleftrightarrow> texHeightM / 2 \<le> maxHeight)
       \<and> texHeightAdjustedM el =
           (if osg_round (maxHeight / texHeightM) > 0
            then maxHeight / osg_round (maxHeight / texHeightM) else maxHeight)
       \<and> (osg_round (maxHeight / texHeightM) > 0 \<longrightarrow> osg_round (maxHeight / texHeightM) \<noteq> 0)
       \<and> (0 \<le> maxHeight \<longrightarrow> 0 \<le> texHeightAdjustedM el)"
proof -
  have adj: "texHeightAdjustedM el = adjustTexHeight maxHeight texHeightM"
    using assms(2,3,4) by (auto simp: buildElevation_def Let_def)
  have "(osg_round (maxHeight / texHeightM) > 0) = (texHeightM / 2 \<le> maxHeight)"
    using assms(1) by (simp add: osg_round_pos_iff field_simps)
  moreover have "texHeightAdjustedM el =
           (if osg_round (maxHeight / texHeightM) > 0
            then maxHeight / osg_round (maxHeight / texHeightM) else maxHeight)"
    by (simp add: adj adjustTexHeight_def Let_def)
  moreover have "0 \<le> maxHeight \<longrightarrow> 0 \<le> texHeightAdjustedM el"
    by (simp add: adj adjust_nonneg)
  moreover have "osg_round (maxHeight / texHeightM) > 0
      \<longrightarrow> osg_round (maxHeight / texHeightM) \<noteq> 0"
    by simp
  ultimately show ?thesis by blast
qed

theorem texHeightAdjusted_safe_witness:
  "\<exists>el. buildElevation None False 5 False (Some demo_skin) demo_extent
           [Vec3 0 0 0, Vec3 10 0 0] = Some el
        \<and> (0::real) < 3 \<and> osg_round (5 / 3) = 2 \<and> texHeightAdjustedM el = 5 / 2"
proof -
  obtain el where el: "buildElevation None False 5 False (Some demo_skin) demo_extent
           [Vec3 0 0 0, Vec3 10 0 0] = Some el"
    by (simp add: buildElevation_def partCorners_def subdivide_def makeCorner_def localize_def
        demo_skin_def demo_extent_def vec_defs tile_loop_step tile_loop_skip fakeCorner_def)
  have r: "osg_round (5 / 3) = 2" by (simp add: osg_round_def)
  have h1: "(0::real) < 3" by simp
  have h3: "3 = (case Some demo_skin of None \<Rightarrow> 1 | Some sk \<Rightarrow> imageHeight sk)"
    by (simp add: demo_skin_def)
  have h4: "5 = targetLen demo_extent - vz (minLoc demo_extent)"
    by (simp add: demo_extent_def)
  from texHeightAdjusted_safe[OF h1 el h3 h4] r
  have "texHeightAdjustedM el = 5 / 2" by simp
  with el r show ?thesis by simp
qed

subsection \<open>Faces and corners\<close>

text \<open>
  Claim C2. In every elevation built from a part with at least two points, a closed polygon
  has as many faces as corners (synthetic ones included) and an open line has one face less;
  so an open part whose corner list has exactly two corners has exactly one face.
\<close>

theorem faces_match_corners:
  assumes "2 \<le> length part"
    and "buildElevation xform isPoly hgt flatten wallSkin ext part = Some el"
  shows "\<exists>cs. partCorners xform isPoly hgt flatten wallSkin ext part = Some cs
            \<and> length part \<le> length cs
            \<and> length (faces el) = (if isPoly then length cs else length cs - 1)
            \<and> (\<not> isPoly \<and> length cs = 2 \<longrightarrow> length (faces el) = 1)"
proof -
  from assms(2) obtain cs where
    cs: "partCorners xform isPoly hgt flatten wallSkin ext part = Some cs"
    and el: "faces el = buildFaces isPoly cs"
    by (auto simp: buildElevation_def Let_def)
  let ?src = "map (makeCorner xform hgt flatten (targetLen ext)) part"
  from assms(1) obtain c rest where src: "?src = c # rest" by (cases part) auto
  with cs have "place_corners wallSkin isPoly c ?src 0
       (case wallSkin of None \<Rightarrow> 0 | Some sk \<Rightarrow> imageWidth sk) = Some cs"
    by (simp add: partCorners_def subdivide_def)
  from place_corners_sources[OF this] have "length part \<le> length cs"
    by (simp add: makeCorner_source)
  with cs el show ?thesis by (auto simp: length_buildFaces)
qed

theorem faces_match_corners_witness:
  "\<exists>el. buildElevation None False 5 False None demo_extent [Vec3 0 0 0, Vec3 10 0 0] = Some el
        \<and> length (faces el) = 1"
proof -
  obtain el where el: "buildElevation None False 5 False None demo_extent
           [Vec3 0 0 0, Vec3 10 0 0] = Some el"
    by (simp add: buildElevation_def partCorners_def subdivide_def)
  have cs: "partCorners None False 5 False None demo_extent [Vec3 0 0 0, Vec3 10 0 0]
      = Some [\<lparr>isFromSource = True, base = Vec3 0 0 0, roof = Vec3 0 0 5, height = 5, offsetX = 0\<rparr>,
              \<lparr>isFromSource = True, base = Vec3 10 0 0, roof = Vec3 10 0 5, height = 5, offsetX = 10\<rparr>]"
    by (simp add: partCorners_def subdivide_def makeCorner_def localize_def vec_defs)
  have two: "2 \<le> length [Vec3 0 0 0, Vec3 10 0 0]" by simp
  from faces_match_corners[OF two el] cs have "length (faces el) = 1" by simp
  with el show ?thesis by simp
qed

subsection \<open>Parts with fewer than two points\<close>

text \<open>
  Claim C8. buildStructure passes over every part with fewer than two points and appends no
  elevation for it; the other parts of the same input are processed in order, each against
  the extent of the whole input, and their elevations are appended to the structure. Nothing
  is reported: whenever the call returns, it returns true.
\<close>

theorem short_parts_skipped:
  "map_option (\<lambda>r. (fst r, elevations (snd r)))
     (buildStructure xform input hgt flatten vertOffset wallSkin st) =
   map_option (\<lambda>els. (True, elevations st @ els))
     (those (map (buildElevation xform (isPolygonType input) hgt flatten wallSkin
                    (zfinder \<bar>hgt\<bar> input))
               (filter (\<lambda>p. 2 \<le> length p) (parts input))))"
  by (cases xform)
     (simp_all add: buildStructure_def Let_def build_parts_those option.map_comp comp_def)

subsection \<open>Texture width and synthetic corners\<close>

lemma ulp_exp_at:
  fixes k :: nat
  assumes "1 \<le> x * 2 ^ k" "x * 2 ^ k < 2" "k \<le> 1022"
  shows "ulp_exp x = - int k - 52"
proof -
  have "0 < x * 2 ^ k" using assms(1) by linarith
  then have x: "0 < x" by (simp add: zero_less_mult_iff)
  have p: "2 powr (- real k) = 1 / 2 ^ k"
    by (simp add: powr_minus powr_realpow divide_inverse)
  have "2 powr (- real k) \<le> x" using assms(1) by (simp add: p field_simps)
  then have lo: "- real k \<le> log 2 x" using x by (simp add: le_log_iff)
  have p2: "2 powr (1 - real k) = 2 / 2 ^ k"
    by (simp add: powr_diff powr_realpow)
  have "x < 2 powr (1 - real k)" using assms(2) by (simp add: p2 field_simps)
  then have hi: "log 2 x < - real k + 1" using x by (simp add: log_less_iff)
  have "\<lfloor>log 2 x\<rfloor> = - int k" using lo hi by (intro floor_unique) simp_all
  then show ?thesis using x assms(3) by (simp add: ulp_exp_def)
qed

lemma fl_at:
  fixes k :: nat
  assumes "1 \<le> x * 2 ^ k" "x * 2 ^ k < 2" "k \<le> 1022"
  shows "fl x = of_int (rne (x * 2 ^ (k + 52))) / 2 ^ (k + 52)"
proof -
  have x: "x \<noteq> 0" using assms(1) by auto
  have "(2::real) powr of_int (- int k - 52) = 1 / 2 ^ (k + 52)"
  proof -
    have "(2::real) powr of_int (- int k - 52) = 2 powr (- real (k + 52))" by simp
    also have "\<dots> = 1 / 2 ^ (k + 52)"
      by (simp only: powr_minus powr_realpow[OF zero_less_numeral] divide_inverse mult_1)
    finally show ?thesis .
  qed
  then show ?thesis using x by (simp add: fl_def ulp_exp_at[OF assms])
qed

lemma rne_near: "of_int n - 1 / 2 < y \<Longrightarrow> y < of_int n + 1 / 2 \<Longrightarrow> rne y = n"
proof -
  assume a: "of_int n - 1 / 2 < y" "y < of_int n + 1 / 2"
  show ?thesis
  proof (cases "of_int n \<le> y")
    case True
    with a have "\<lfloor>y\<rfloor> = n" by (intro floor_unique) simp_all
    with a show ?thesis by (simp add: rne_def)
  next
    case False
    with a have f: "\<lfloor>y\<rfloor> = n - 1" by (intro floor_unique) simp_all
    with a False show ?thesis by (simp add: rne_def)
  qed
qed

lemma tile_loop_dbl_skip:
  "\<not> nb < fl (cornerOffset e + span e) \<or> (isLastEdge e \<and> \<not> isPoly)
     \<Longrightarrow> tile_loop_dbl w isPoly e ins nb = Some (ins, nb)"
  by (subst tile_loop_dbl.simps) auto

lemma tile_loop_dbl_step:
  "nb < fl (cornerOffset e + span e) \<Longrightarrow> \<not> (isLastEdge e \<and> \<not> isPoly)
     \<Longrightarrow> tile_loop_dbl w isPoly e ins nb
         = tile_loop_dbl w isPoly e (ins @ [fakeCorner_dbl e nb]) (fl (nb + w))"
  by (subst tile_loop_dbl.simps) auto


lemma sqrt_scale: "sqrt q * 2 ^ k = sqrt (q * 4 ^ k)"
proof -
  have "sqrt (4 ^ k) = (2::real) ^ k"
    by (simp add: real_sqrt_power)
  then show ?thesis by (simp add: real_sqrt_mult)
qed

lemma fl_sqrt_at:
  fixes k :: nat and n :: int
  assumes "1 \<le> q * 4 ^ k" "q * 4 ^ k < 4" "k \<le> 1022"
    and "(of_int n - 1 / 2)\<^sup>2 < q * 4 ^ (k + 52)"
    and "q * 4 ^ (k + 52) < (of_int n + 1 / 2)\<^sup>2"
    and "0 < n"
  shows "fl (sqrt q) = of_int n / 2 ^ (k + 52)"
proof -
  have a: "1 \<le> sqrt q * 2 ^ k"
    unfolding sqrt_scale using assms(1) by simp
  have b: "sqrt q * 2 ^ k < 2"
  proof -
    have "sqrt (q * 4 ^ k) < sqrt 4" using assms(2) by (simp only: real_sqrt_less_iff)
    then show ?thesis unfolding sqrt_scale by simp
  qed
  have lo: "of_int n - 1 / 2 < sqrt q * 2 ^ (k + 52)"
    unfolding sqrt_scale using assms(4) by (rule real_less_rsqrt)
  have "0 \<le> real_of_int n + 1 / 2" using assms(6) by simp
  then have hi: "sqrt q * 2 ^ (k + 52) < of_int n + 1 / 2"
    unfolding sqrt_scale using assms(5) by (rule real_less_lsqrt)
  from rne_near[OF lo hi] show ?thesis by (simp add: fl_at[OF a b assms(3)])
qed

lemma fl_zero: "fl 0 = 0"
  by (simp add: fl_def)

lemma dlength_x:
  "dlength (dsub (Vec3 b 0 0) (Vec3 a 0 0)) = fl (sqrt (fl (fl (fl (fl (b - a) * fl (b - a))))))"
  by (simp add: dlength_def dsub_def fl_zero)

lemma rl_decimal: "rl_x1 = fl (6 / 100)" "rl_x2 = fl (57 / 100)"
  by (simp_all add: rl_x1_def rl_x2_def fl_at[where k=5] fl_at[where k=1] rne_def)

lemma rl_x1_exact: "fl rl_x1 = rl_x1"
  by (simp add: rl_x1_def fl_at[where k=5] rne_def)

lemma rl_span1: "dlength (dsub (Vec3 rl_x1 0 0) (Vec3 0 0 0)) = rl_x1"
proof -
  have q: "fl (rl_x1 * rl_x1) = 4150517416584649 / 2 ^ 60"
    by (simp add: rl_x1_def fl_at[where k=9] rne_def)
  have qe: "fl (4150517416584649 / 2 ^ 60) = 4150517416584649 / 2 ^ 60"
    by (simp add: fl_at[where k=9] rne_def)
  have "fl (sqrt (4150517416584649 / 2 ^ 60)) = of_int 8646911284551352 / 2 ^ (5 + 52)"
    by (rule fl_sqrt_at) (simp_all add: power2_eq_square)
  then have r: "fl (sqrt (4150517416584649 / 2 ^ 60)) = rl_x1" by (simp add: rl_x1_def)
  show ?thesis unfolding dlength_x by (simp only: diff_zero rl_x1_exact q qe r)
qed

lemma rl_span2: "dlength (dsub (Vec3 rl_x2 0 0) (Vec3 rl_x1 0 0)) = rl_s2"
proof -
  have d: "fl (rl_x2 - rl_x1) = rl_s2"
    by (simp add: rl_x1_def rl_x2_def rl_s2_def fl_at[where k=1] rne_def)
  have q: "fl (rl_s2 * rl_s2) = 585693131539533 / 2 ^ 51"
    by (simp add: rl_s2_def fl_at[where k=2] rne_def)
  have qe: "fl (585693131539533 / 2 ^ 51) = 585693131539533 / 2 ^ 51"
    by (simp add: fl_at[where k=2] rne_def)
  have "fl (sqrt (585693131539533 / 2 ^ 51)) = of_int 4593671619917906 / 2 ^ (1 + 52)"
    by (rule fl_sqrt_at) (simp_all add: power2_eq_square)
  then have r: "fl (sqrt (585693131539533 / 2 ^ 51)) = rl_s2" by (simp add: rl_s2_def)
  show ?thesis unfolding dlength_x by (simp only: d q qe r)
qed

lemma rl_span3: "dlength (dsub (Vec3 (3 / 4) 0 0) (Vec3 rl_x2 0 0)) = rl_s3"
proof -
  have d: "fl (3 / 4 - rl_x2) = rl_s3"
    by (simp add: rl_x2_def rl_s3_def fl_at[where k=3] rne_def)
  have q: "fl (rl_s3 * rl_s3) = 4669332093657733 / 2 ^ 57"
    by (simp add: rl_s3_def fl_at[where k=5] rne_def)
  have qe: "fl (4669332093657733 / 2 ^ 57) = 4669332093657733 / 2 ^ 57"
    by (simp add: fl_at[where k=5] rne_def)
  have "fl (sqrt (4669332093657733 / 2 ^ 57)) = of_int 6485183463413516 / 2 ^ (3 + 52)"
    by (rule fl_sqrt_at) (simp_all add: power2_eq_square)
  then have r: "fl (sqrt (4669332093657733 / 2 ^ 57)) = rl_s3" by (simp add: rl_s3_def)
  show ?thesis unfolding dlength_x by (simp only: d q qe r)
qed

lemma rl_sum2: "fl (rl_x1 + rl_s2) = rl_off2"
  by (simp add: rl_x1_def rl_s2_def rl_off2_def fl_at[where k=1] rne_def)

lemma rl_sum3: "fl (rl_off2 + rl_s3) = rl_top"
  by (simp add: rl_off2_def rl_s3_def rl_top_def fl_at[where k=1] rne_def)

lemma fl_three_halves: "fl (3 / 2) = 3 / 2"
  using fl_at[where k=0 and x="3 / 2"] by (simp add: rne_def)

lemma rl_order:
  "\<not> 3 / 4 < rl_x1" "\<not> 3 / 4 < rl_off2" "3 / 4 < rl_top" "\<not> 3 / 2 < rl_top"
  "0 < rl_x1" "rl_x1 < rl_x2" "rl_x2 < 3 / 4"
  by (simp_all add: rl_x1_def rl_x2_def rl_off2_def rl_top_def)


lemma makeCorner_dbl_source: "isFromSource (makeCorner_dbl xform hgt flatten tgt m)"
  by (simp add: makeCorner_dbl_def Let_def)

lemma makeCorner_dbl_base_up:
  "0 \<le> hgt \<Longrightarrow> base (makeCorner_dbl None hgt flatten tgt m) = m"
  by (simp add: makeCorner_dbl_def Let_def localize_def)

lemma place_corners_dbl_wide:
  assumes "\<forall>reach \<in> set (edge_offsets_dbl isPoly first cs off). reach \<le> nb"
  shows "\<exists>out. place_corners_dbl ws isPoly first cs off nb = Some out
           \<and> length out = length cs
           \<and> map base out = map base cs \<and> map roof out = map roof cs
           \<and> map isFromSource out = map isFromSource cs"
  using assms
proof (induction cs arbitrary: off)
  case Nil
  then show ?case by simp
next
  case (Cons c rest)
  let ?sp = "span_dbl c (next_of first rest)"
  let ?reach = "fl (off + ?sp)"
  have noins: "\<not> nb < ?reach \<or> (rest = [] \<and> \<not> isPoly)"
  proof (cases "rest = [] \<and> \<not> isPoly")
    case True
    then show ?thesis by simp
  next
    case False
    with Cons.prems have "?reach \<le> nb" by auto
    then show ?thesis by simp
  qed
  have "\<exists>out'. place_corners_dbl ws isPoly first rest ?reach nb = Some out'
           \<and> length out' = length rest
           \<and> map base out' = map base rest \<and> map roof out' = map roof rest
           \<and> map isFromSource out' = map isFromSource rest"
  proof (cases "rest = []")
    case True
    then show ?thesis by simp
  next
    case False
    with Cons.prems have "\<forall>reach \<in> set (edge_offsets_dbl isPoly first rest ?reach). reach \<le> nb"
      by auto
    from Cons.IH[OF this] show ?thesis .
  qed
  then obtain out' where
    rec: "place_corners_dbl ws isPoly first rest ?reach nb = Some out'"
    and props: "length out' = length rest" "map base out' = map base rest"
       "map roof out' = map roof rest" "map isFromSource out' = map isFromSource rest"
    by blast
  have "place_corners_dbl ws isPoly first (c # rest) off nb = Some (c\<lparr>offsetX := off\<rparr> # out')"
  proof (cases ws)
    case None
    with rec show ?thesis by (simp add: Let_def next_of_def span_dbl_def)
  next
    case (Some sk)
    have "tile_loop_dbl (imageWidth sk) isPoly
            \<lparr>this_corner = c\<lparr>offsetX := off\<rparr>,
             base_vec = ddiv (dsub (base (next_of first rest)) (base c)) ?sp,
             roof_vec = dnormalize (dsub (roof (next_of first rest)) (roof c)),
             cornerOffset = off, span = ?sp, isLastEdge = (rest = [])\<rparr> [] nb = Some ([], nb)"
      using noins by (intro tile_loop_dbl_skip) simp
    with rec Some show ?thesis by (simp add: Let_def next_of_def span_dbl_def)
  qed
  with props show ?case by simp
qed

text \<open>
  Claim C3, amended. If the width of the wall texture (zero when there is no wall skin) is at
  least every running offset \<^verbatim>\<open>cornerOffset + span\<close> that buildStructure computes in
  double arithmetic along the part, the last of which is the perimeter as the code
  accumulates it, then buildStructure inserts no synthetic corner: it returns, every corner
  of the part has isFromSource set, and there are as many corners as source points.
\<close>

theorem wide_texture_no_synthetic_dbl:
  assumes "\<forall>reach \<in> set (running_offsets_dbl isPoly
                             (map (makeCorner_dbl xform hgt flatten (targetLen ext)) part)).
             reach \<le> (case wallSkin of None \<Rightarrow> 0 | Some sk \<Rightarrow> imageWidth sk)"
  shows "\<exists>cs. partCorners_dbl xform isPoly hgt flatten wallSkin ext part = Some cs
            \<and> (\<forall>c \<in> set cs. isFromSource c)
            \<and> length cs = length part"
proof (cases part)
  case Nil
  then show ?thesis by (simp add: partCorners_dbl_def subdivide_dbl_def)
next
  case (Cons p ps)
  let ?src = "map (makeCorner_dbl xform hgt flatten (targetLen ext)) part"
  let ?c = "makeCorner_dbl xform hgt flatten (targetLen ext) p"
  let ?w = "case wallSkin of None \<Rightarrow> 0 | Some sk \<Rightarrow> imageWidth sk"
  from Cons have src: "?src = ?c # map (makeCorner_dbl xform hgt flatten (targetLen ext)) ps" by simp
  with assms have "\<forall>reach \<in> set (edge_offsets_dbl isPoly ?c ?src 0). reach \<le> ?w"
    by (simp add: running_offsets_dbl_def)
  from place_corners_dbl_wide[OF this, of wallSkin] obtain out where
    out: "place_corners_dbl wallSkin isPoly ?c ?src 0 ?w = Some out"
    and len: "length out = length ?src"
    and src_flags: "map isFromSource out = map isFromSource ?src"
    by blast
  have "set (map isFromSource out) \<subseteq> {True}"
    unfolding src_flags by (auto simp: makeCorner_dbl_source)
  then have "\<forall>c \<in> set out. isFromSource c" by auto
  moreover have "partCorners_dbl xform isPoly hgt flatten wallSkin ext part = Some out"
    using out src by (simp add: partCorners_dbl_def subdivide_dbl_def)
  ultimately show ?thesis using len by simp
qed

lemma vlength_x: "vlength (vsub (Vec3 b 0 0) (Vec3 a 0 0)) = \<bar>b - a\<bar>"
  by (simp add: vlength_def vsub_def length2_def)

lemma rl_perimeter:
  "perimeter False (map (makeCorner_dbl None 5 False 5) rl_line) = 3 / 4"
  using rl_order
  by (simp add: perimeter_def rl_line_def edge_span_def makeCorner_dbl_base_up vlength_x)

lemma fakeCorner_dbl_synthetic: "\<not> isFromSource (fakeCorner_dbl e nb)"
  by (simp add: fakeCorner_dbl_def Let_def)

lemma place_dbl_last_open:
  "place_corners_dbl (Some sk) False first [c] off nb = Some [c\<lparr>offsetX := off\<rparr>]"
  by (simp add: Let_def tile_loop_dbl_skip)

lemma place_dbl_plain:
  assumes "\<not> nb < fl (off + span_dbl c n)"
  shows "place_corners_dbl (Some sk) isPoly first (c # n # rest) off nb
       = map_option ((#) (c\<lparr>offsetX := off\<rparr>))
           (place_corners_dbl (Some sk) isPoly first (n # rest) (fl (off + span_dbl c n)) nb)"
proof -
  have "tile_loop_dbl (imageWidth sk) isPoly
          \<lparr>this_corner = c\<lparr>offsetX := off\<rparr>,
           base_vec = ddiv (dsub (base n) (base c)) (span_dbl c n),
           roof_vec = dnormalize (dsub (roof n) (roof c)),
           cornerOffset = off, span = span_dbl c n, isLastEdge = False\<rparr> [] nb = Some ([], nb)"
    using assms by (intro tile_loop_dbl_skip) simp
  then show ?thesis by (simp add: Let_def span_dbl_def del: place_corners_dbl.simps(2))
      (simp add: Let_def span_dbl_def)
qed

lemma place_dbl_one:
  assumes "nb < fl (off + span_dbl c n)"
    and "\<not> fl (nb + imageWidth sk) < fl (off + span_dbl c n)"
  shows "\<exists>f. \<not> isFromSource f
       \<and> place_corners_dbl (Some sk) isPoly first (c # n # rest) off nb
         = map_option (\<lambda>cs. c\<lparr>offsetX := off\<rparr> # f # cs)
             (place_corners_dbl (Some sk) isPoly first (n # rest) (fl (off + span_dbl c n))
                (fl (nb + imageWidth sk)))"
proof -
  let ?e = "\<lparr>this_corner = c\<lparr>offsetX := off\<rparr>,
           base_vec = ddiv (dsub (base n) (base c)) (span_dbl c n),
           roof_vec = dnormalize (dsub (roof n) (roof c)),
           cornerOffset = off, span = span_dbl c n, isLastEdge = False\<rparr>"
  have "tile_loop_dbl (imageWidth sk) isPoly ?e [] nb
      = tile_loop_dbl (imageWidth sk) isPoly ?e ([] @ [fakeCorner_dbl ?e nb]) (fl (nb + imageWidth sk))"
    using assms(1) by (intro tile_loop_dbl_step) simp_all
  also have "\<dots> = Some ([fakeCorner_dbl ?e nb], fl (nb + imageWidth sk))"
    using assms(2) by (simp add: tile_loop_dbl_skip)
  finally have tl: "tile_loop_dbl (imageWidth sk) isPoly ?e [] nb
      = Some ([fakeCorner_dbl ?e nb], fl (nb + imageWidth sk))" .
  have "place_corners_dbl (Some sk) isPoly first (c # n # rest) off nb
         = map_option (\<lambda>cs. c\<lparr>offsetX := off\<rparr> # fakeCorner_dbl ?e nb # cs)
             (place_corners_dbl (Some sk) isPoly first (n # rest) (fl (off + span_dbl c n))
                (fl (nb + imageWidth sk)))"
    using tl by (simp add: Let_def span_dbl_def)
  with fakeCorner_dbl_synthetic[of ?e nb] show ?thesis by blast
qed

lemma rl_corners:
  "map_option (map isFromSource)
     (partCorners_dbl None False 5 False (Some rl_skin) demo_extent rl_line)
   = Some [True, True, True, False, True]"
proof -
  let ?mk = "makeCorner_dbl None 5 False (targetLen demo_extent)"
  let ?c0 = "?mk (Vec3 0 0 0)" and ?c1 = "?mk (Vec3 rl_x1 0 0)"
    and ?c2 = "?mk (Vec3 rl_x2 0 0)" and ?c3 = "?mk (Vec3 (3 / 4) 0 0)"
  have w: "imageWidth rl_skin = 3 / 4" by (simp add: rl_skin_def)
  have sp1: "span_dbl ?c0 ?c1 = rl_x1" by (simp add: span_dbl_def makeCorner_dbl_base_up rl_span1)
  have sp2: "span_dbl ?c1 ?c2 = rl_s2" by (simp add: span_dbl_def makeCorner_dbl_base_up rl_span2)
  have sp3: "span_dbl ?c2 ?c3 = rl_s3" by (simp add: span_dbl_def makeCorner_dbl_base_up rl_span3)
  have r1: "fl (0 + span_dbl ?c0 ?c1) = rl_x1" by (simp add: sp1 rl_x1_exact)
  have r2: "fl (rl_x1 + span_dbl ?c1 ?c2) = rl_off2" by (simp add: sp2 rl_sum2)
  have r3: "fl (rl_off2 + span_dbl ?c2 ?c3) = rl_top" by (simp add: sp3 rl_sum3)
  have nb2: "fl (3 / 4 + imageWidth rl_skin) = 3 / 2" by (simp add: w fl_three_halves)
  have e0: "place_corners_dbl (Some rl_skin) False ?c0 [?c0, ?c1, ?c2, ?c3] 0 (3 / 4)
      = map_option ((#) (?c0\<lparr>offsetX := 0\<rparr>))
          (place_corners_dbl (Some rl_skin) False ?c0 [?c1, ?c2, ?c3] rl_x1 (3 / 4))"
  proof -
    have t: "\<not> 3 / 4 < fl (0 + span_dbl ?c0 ?c1)" unfolding r1 by (rule rl_order(1))
    show ?thesis
      using place_dbl_plain[OF t, where sk=rl_skin and isPoly=False and first="?c0"
          and rest="[?c2, ?c3]"]
      by (simp only: r1)
  qed
  have e1: "place_corners_dbl (Some rl_skin) False ?c0 [?c1, ?c2, ?c3] rl_x1 (3 / 4)
      = map_option ((#) (?c1\<lparr>offsetX := rl_x1\<rparr>))
          (place_corners_dbl (Some rl_skin) False ?c0 [?c2, ?c3] rl_off2 (3 / 4))"
  proof -
    have t: "\<not> 3 / 4 < fl (rl_x1 + span_dbl ?c1 ?c2)" unfolding r2 by (rule rl_order(2))
    show ?thesis
      using place_dbl_plain[OF t, where sk=rl_skin and isPoly=False and first="?c0"
          and rest="[?c3]"]
      by (simp only: r2)
  qed
  have t1: "3 / 4 < fl (rl_off2 + span_dbl ?c2 ?c3)" unfolding r3 by (rule rl_order(3))
  have t2: "\<not> fl (3 / 4 + imageWidth rl_skin) < fl (rl_off2 + span_dbl ?c2 ?c3)"
    unfolding r3 nb2 by (rule rl_order(4))
  from place_dbl_one[OF t1 t2, where isPoly=False and first="?c0" and rest="[]"]
  obtain f where f: "\<not> isFromSource f"
    and e2: "place_corners_dbl (Some rl_skin) False ?c0 [?c2, ?c3] rl_off2 (3 / 4)
      = map_option (\<lambda>cs. ?c2\<lparr>offsetX := rl_off2\<rparr> # f # cs)
          (place_corners_dbl (Some rl_skin) False ?c0 [?c3] rl_top (3 / 2))"
    by (simp only: r3 nb2) blast
  have e3: "place_corners_dbl (Some rl_skin) False ?c0 [?c3] rl_top (3 / 2)
      = Some [?c3\<lparr>offsetX := rl_top\<rparr>]"
    by (rule place_dbl_last_open)
  have "partCorners_dbl None False 5 False (Some rl_skin) demo_extent rl_line
      = Some [?c0\<lparr>offsetX := 0\<rparr>, ?c1\<lparr>offsetX := rl_x1\<rparr>, ?c2\<lparr>offsetX := rl_off2\<rparr>, f,
              ?c3\<lparr>offsetX := rl_top\<rparr>]"
    unfolding partCorners_dbl_def subdivide_dbl_def rl_line_def
    by (simp add: w e0 e1 e2 e3 del: place_corners_dbl.simps)
  then show ?thesis using f by (simp add: makeCorner_dbl_source)
qed

text \<open>
  Claim C3 as stated fails. The perimeter of the example line, the exact sum of the base
  lengths of its three edges, is \<open>3 / 4\<close>, the width of the texture; the lengths that the
  code adds are rounded, its running offset after the third edge is \<open>3 / 4 + 2 ^ -53\<close>,
  and step 2 inserts a synthetic corner on that edge: five corners for four source points.
\<close>

theorem wide_texture_counterexample:
  "perimeter False (map (makeCorner_dbl None 5 False 5) rl_line) \<le> imageWidth rl_skin
   \<and> map_option (map isFromSource)
        (partCorners_dbl None False 5 False (Some rl_skin) demo_extent rl_line)
      = Some [True, True, True, False, True]"
  using rl_corners by (simp add: rl_perimeter rl_skin_def)

lemma rl_running_offsets:
  "running_offsets_dbl False (map (makeCorner_dbl None 5 False (targetLen demo_extent)) rl_line)
   = [rl_x1, rl_off2, rl_top]"
proof -
  let ?mk = "makeCorner_dbl None 5 False (targetLen demo_extent)"
  let ?c0 = "?mk (Vec3 0 0 0)" and ?c1 = "?mk (Vec3 rl_x1 0 0)"
    and ?c2 = "?mk (Vec3 rl_x2 0 0)" and ?c3 = "?mk (Vec3 (3 / 4) 0 0)"
  have sp1: "span_dbl ?c0 ?c1 = rl_x1" by (simp add: span_dbl_def makeCorner_dbl_base_up rl_span1)
  have sp2: "span_dbl ?c1 ?c2 = rl_s2" by (simp add: span_dbl_def makeCorner_dbl_base_up rl_span2)
  have sp3: "span_dbl ?c2 ?c3 = rl_s3" by (simp add: span_dbl_def makeCorner_dbl_base_up rl_span3)
  show ?thesis
    by (simp add: running_offsets_dbl_def rl_line_def next_of_def sp1 sp2 sp3
        rl_x1_exact rl_sum2 rl_sum3)
qed

theorem wide_texture_no_synthetic_dbl_witness:
  "running_offsets_dbl False (map (makeCorner_dbl None 5 False (targetLen demo_extent)) rl_line)
     = [rl_x1, rl_off2, rl_top]
   \<and> rl_x1 \<le> 1 \<and> rl_off2 \<le> 1 \<and> rl_top \<le> 1
   \<and> (\<exists>cs. partCorners_dbl None False 5 False (Some (rl_skin\<lparr>imageWidth := 1\<rparr>)) demo_extent
              rl_line = Some cs
          \<and> (\<forall>c \<in> set cs. isFromSource c) \<and> length cs = 4)"
proof -
  have bounds: "rl_x1 \<le> 1" "rl_off2 \<le> 1" "rl_top \<le> 1"
    by (simp_all add: rl_x1_def rl_off2_def rl_top_def)
  have le: "\<forall>reach \<in> set (running_offsets_dbl False
                       (map (makeCorner_dbl None 5 False (targetLen demo_extent)) rl_line)).
      reach \<le> (case Some (rl_skin\<lparr>imageWidth := 1\<rparr>) of
                 None \<Rightarrow> 0 | Some sk \<Rightarrow> imageWidth sk)"
    unfolding rl_running_offsets using bounds by simp
  have len: "length rl_line = 4" by (simp add: rl_line_def)
  from wide_texture_no_synthetic_dbl[OF le] rl_running_offsets bounds show ?thesis
    unfolding len by simp
qed

text \<open>
  Without a wall skin the texture width is taken as zero and step 2 never subdivides.
\<close>

lemma place_corners_no_skin:
  "\<exists>out. place_corners None isPoly first cs off nb = Some out
     \<and> length out = length cs \<and> map isFromSource out = map isFromSource cs
     \<and> map base out = map base cs \<and> map roof out = map roof cs"
proof (induction cs arbitrary: off)
  case Nil
  then show ?case by simp
next
  case (Cons c rest)
  from Cons.IH[of "off + edge_span c (next_of first rest)"] obtain out' where
    "place_corners None isPoly first rest (off + edge_span c (next_of first rest)) nb = Some out'"
    "length out' = length rest" "map isFromSource out' = map isFromSource rest"
    "map base out' = map base rest" "map roof out' = map roof rest"
    by blast
  then show ?case by (simp add: Let_def next_of_def edge_span_def)
qed

lemma no_skin_no_subdivision:
  "\<exists>cs. partCorners xform isPoly hgt flatten None ext part = Some cs
     \<and> length cs = length part \<and> (\<forall>c \<in> set cs. isFromSource c)"
proof (cases part)
  case Nil
  then show ?thesis by (simp add: partCorners_def subdivide_def)
next
  case (Cons p ps)
  let ?src = "map (makeCorner xform hgt flatten (targetLen ext)) part"
  from place_corners_no_skin[of isPoly "makeCorner xform hgt flatten (targetLen ext) p" ?src 0 0]
  obtain out where out: "place_corners None isPoly (makeCorner xform hgt flatten (targetLen ext) p)
      ?src 0 0 = Some out" "length out = length ?src"
    and fl: "map isFromSource out = map isFromSource ?src"
    by blast
  have "set (map isFromSource out) \<subseteq> {True}"
    unfolding fl by (auto simp: makeCorner_source)
  then have "\<forall>c \<in> set out. isFromSource c" by auto
  moreover have "partCorners xform isPoly hgt flatten None ext part = Some out"
    using out(1) Cons by (simp add: partCorners_def subdivide_def del: place_corners.simps)
  ultimately show ?thesis using out(2) by simp
qed

text \<open>
  Claim C4 fails on the code. With a wall skin whose texture width is zero, the test
  \<^verbatim>\<open>nextTexBoundary < cornerOffset + span\<close> stays true on the first edge of positive
  length, because the boundary advances by the width: the loop inserts corners for ever.
  The rooftop path of the same function replaces a texture span that is not positive by 10.
\<close>

theorem zero_width_skin_diverges:
  "buildStructure None demo_input 5 False 0 (Some (demo_skin\<lparr>imageWidth := 0\<rparr>)) empty_structure
     = None"
  by (simp add: buildStructure_def buildElevation_def partCorners_def demo_input_def
      subdivide_def makeCorner_def localize_def vec_defs demo_skin_def tile_loop_diverges)

subsection \<open>Extruding downwards\<close>

lemma makeCorner_down:
  "hgt < 0 \<Longrightarrow> roof (makeCorner xform hgt flatten tgt m) = localize xform m
     \<and> base (makeCorner xform hgt flatten tgt m)
         = localize xform (Vec3 (vx m) (vy m) (vz m - \<bar>hgt\<bar>))"
  by (simp add: makeCorner_def Let_def)

text \<open>
  Claim C5. With a negative height the roof of every source corner is the input point and
  its base is the input point lowered by the absolute height, both then taken into the map's
  reference system. For the square footprint with height \<open>-5\<close> and no wall skin the four
  corners are from the source, with base \<open>z = -5\<close> and roof \<open>z = 0\<close>.
\<close>

theorem extrude_down_corners:
  assumes "hgt < 0"
    and "partCorners xform isPoly hgt flatten wallSkin ext part = Some cs"
  shows "map roof (filter isFromSource cs) = map (localize xform) part
       \<and> map base (filter isFromSource cs)
           = map (\<lambda>m. localize xform (Vec3 (vx m) (vy m) (vz m - \<bar>hgt\<bar>))) part
       \<and> partCorners None True (- 5) flatten None ext square =
           Some [\<lparr>isFromSource = True, base = Vec3 0 0 (- 5), roof = Vec3 0 0 0,
                   height = 5, offsetX = 0\<rparr>,
                 \<lparr>isFromSource = True, base = Vec3 10 0 (- 5), roof = Vec3 10 0 0,
                   height = 5, offsetX = 10\<rparr>,
                 \<lparr>isFromSource = True, base = Vec3 10 10 (- 5), roof = Vec3 10 10 0,
                   height = 5, offsetX = 20\<rparr>,
                 \<lparr>isFromSource = True, base = Vec3 0 10 (- 5), roof = Vec3 0 10 0,
                   height = 5, offsetX = 30\<rparr>]"
proof -
  let ?src = "map (makeCorner xform hgt flatten (targetLen ext)) part"
  have main: "map roof (filter isFromSource cs) = map roof ?src
      \<and> map base (filter isFromSource cs) = map base ?src"
  proof (cases part)
    case Nil
    with assms(2) show ?thesis by (simp add: partCorners_def subdivide_def)
  next
    case (Cons p ps)
    with assms(2) have "place_corners wallSkin isPoly (makeCorner xform hgt flatten (targetLen ext) p)
        ?src 0 (case wallSkin of None \<Rightarrow> 0 | Some sk \<Rightarrow> imageWidth sk) = Some cs"
      by (simp add: partCorners_def subdivide_def)
    from place_corners_sources[OF this] show ?thesis by (simp add: makeCorner_source)
  qed
  have "map roof ?src = map (localize xform) part"
    using assms(1) by (simp add: makeCorner_down)
  moreover have "map base ?src
      = map (\<lambda>m. localize xform (Vec3 (vx m) (vy m) (vz m - \<bar>hgt\<bar>))) part"
    using assms(1) by (simp add: makeCorner_down)
  moreover have "partCorners None True (- 5) flatten None ext square =
           Some [\<lparr>isFromSource = True, base = Vec3 0 0 (- 5), roof = Vec3 0 0 0,
                   height = 5, offsetX = 0\<rparr>,
                 \<lparr>isFromSource = True, base = Vec3 10 0 (- 5), roof = Vec3 10 0 0,
                   height = 5, offsetX = 10\<rparr>,
                 \<lparr>isFromSource = True, base = Vec3 10 10 (- 5), roof = Vec3 10 10 0,
                   height = 5, offsetX = 20\<rparr>,
                 \<lparr>isFromSource = True, base = Vec3 0 10 (- 5), roof = Vec3 0 10 0,
                   height = 5, offsetX = 30\<rparr>]"
    by (simp add: partCorners_def subdivide_def square_def makeCorner_def localize_def vec_defs)
  ultimately show ?thesis using main by simp
qed

theorem extrude_down_corners_witness:
  "\<exists>cs. partCorners None False (- 5) False (Some demo_skin) demo_extent
           [Vec3 0 0 0, Vec3 10 0 0] = Some cs
        \<and> length cs = 4
        \<and> map roof (filter isFromSource cs) = [Vec3 0 0 0, Vec3 10 0 0]
        \<and> map base (filter isFromSource cs) = [Vec3 0 0 (- 5), Vec3 10 0 (- 5)]"
proof -
  obtain cs where cs: "partCorners None False (- 5) False (Some demo_skin) demo_extent
           [Vec3 0 0 0, Vec3 10 0 0] = Some cs" and len: "length cs = 4"
    by (simp add: partCorners_def subdivide_def makeCorner_def localize_def
        demo_skin_def demo_extent_def vec_defs tile_loop_step tile_loop_skip fakeCorner_def)
  have neg: "(- 5 :: real) < 0" by simp
  from extrude_down_corners[OF neg cs] cs len show ?thesis by (simp add: localize_def)
qed

section \<open>Properties of the wall builder\<close>

lemma length_splice: "i + length vs \<le> length xs \<Longrightarrow> length (splice xs i vs) = length xs"
  by (simp add: splice_def)

lemma splice_Nil: "splice xs i [] = xs"
  by (simp add: splice_def)

lemma splice_splice:
  assumes "i + length s + length t \<le> length xs"
  shows "splice (splice xs i s) (i + length s) t = splice xs i (s @ t)"
proof -
  have "take (i + length s) (splice xs i s) = take i xs @ s"
    using assms by (simp add: splice_def)
  moreover have "drop (i + length s + length t) (splice xs i s) = drop (i + length s + length t) xs"
    using assms by (simp add: splice_def add.commute add.left_commute)
  ultimately show ?thesis by (simp add: splice_def add.assoc)
qed

lemma splice_grow: "length vs = n \<Longrightarrow> splice (grow d xs n) (length xs) vs = xs @ vs"
  by (simp add: splice_def grow_def)

lemma puts_splice: "i + length vs \<le> length xs \<Longrightarrow> puts xs i vs = Some (splice xs i vs)"
proof (induction vs arbitrary: xs i)
  case Nil
  then show ?case by (simp add: splice_Nil)
next
  case (Cons v vs)
  from Cons.prems have i: "i < length xs" by simp
  have "Suc i + length vs \<le> length (xs[i := v])" using Cons.prems by simp
  from Cons.IH[OF this] have "puts (xs[i := v]) (Suc i) vs = Some (splice (xs[i := v]) (Suc i) vs)" .
  moreover have "splice (xs[i := v]) (Suc i) vs = splice xs i (v # vs)"
  proof -
    have "take (Suc i) (xs[i := v]) = take i xs @ [v]"
      using i by (simp add: take_Suc_conv_app_nth)
    then show ?thesis by (simp add: splice_def)
  qed
  ultimately show ?case using i by (simp add: put_def)
qed

lemma length_face_runs:
  "length (face_verts f) = 6" "length (face_normals f) = 6"
  "length (face_anchors env st f) = 6" "length (face_colors wc wbc) = 6"
  "length (faceTex sk e f) = 6"
  by (simp_all add: face_verts_def face_normals_def face_anchors_def face_colors_def
      faceTex_def Let_def)

lemma length_concat_six:
  "(\<And>x. length (h x) = 6) \<Longrightarrow> length (concat (map h xs)) = 6 * length xs"
  by (induction xs) simp_all

lemma wrote_Nil: "wrote env st wc wbc wallSkin [] p g = g"
  by (cases wallSkin) (simp_all add: wrote_def splice_Nil)

lemma wallFace_ok:
  assumes "fits env wallSkin p 6 g"
  shows "wallFace env st wc wbc wallSkin e f p g = Some (wrote env st wc wbc wallSkin [(e, f)] p g)"
proof -
  have v: "puts (vertexArray g) p (face_verts f) = Some (splice (vertexArray g) p (face_verts f))"
    using assms by (intro puts_splice) (simp add: fits_def length_face_runs)
  have n: "puts (normalArray g) p (face_normals f) = Some (splice (normalArray g) p (face_normals f))"
    using assms by (intro puts_splice) (simp add: fits_def length_face_runs)
  have a: "gpuClamping env \<Longrightarrow> puts (anchorArray g) p (face_anchors env st f)
      = Some (splice (anchorArray g) p (face_anchors env st f))"
    using assms by (intro puts_splice) (simp add: fits_def length_face_runs)
  have c: "useColor env wallSkin \<Longrightarrow> puts (colorArray g) p (face_colors wc wbc)
      = Some (splice (colorArray g) p (face_colors wc wbc))"
    using assms by (intro puts_splice) (simp add: fits_def length_face_runs)
  have t: "wallSkin = Some sk \<Longrightarrow> puts (texCoordArray g) p (faceTex sk e f)
      = Some (splice (texCoordArray g) p (faceTex sk e f))" for sk
    using assms by (intro puts_splice) (simp add: fits_def length_face_runs)
  show ?thesis
    by (cases wallSkin) (simp_all add: wallFace_def wrote_def v n a c t)
qed


lemma splice_concat_append:
  assumes "\<And>x. length (h x) = 6"
    and "p + 6 * (length a + length b) \<le> length xs"
  shows "splice (splice xs p (concat (map h a))) (p + 6 * length a) (concat (map h b))
       = splice xs p (concat (map h (a @ b)))"
proof -
  have la: "length (concat (map h a)) = 6 * length a"
    and lb: "length (concat (map h b)) = 6 * length b"
    using assms(1) by (simp_all add: length_concat_six)
  have "p + length (concat (map h a)) + length (concat (map h b)) \<le> length xs"
    using assms(2) by (simp add: la lb)
  from splice_splice[OF this] show ?thesis by (simp add: la)
qed

lemma wrote_append:
  assumes "fits env wallSkin p (6 * (length a + length b)) g"
  shows "wrote env st wc wbc wallSkin b (p + 6 * length a) (wrote env st wc wbc wallSkin a p g)
       = wrote env st wc wbc wallSkin (a @ b) p g"
proof -
  have v: "splice (splice (vertexArray g) p (concat (map (\<lambda>ef. face_verts (snd ef)) a)))
             (p + 6 * length a) (concat (map (\<lambda>ef. face_verts (snd ef)) b))
         = splice (vertexArray g) p (concat (map (\<lambda>ef. face_verts (snd ef)) (a @ b)))"
    using assms by (intro splice_concat_append) (simp_all add: fits_def length_face_runs)
  have n: "splice (splice (normalArray g) p (concat (map (\<lambda>ef. face_normals (snd ef)) a)))
             (p + 6 * length a) (concat (map (\<lambda>ef. face_normals (snd ef)) b))
         = splice (normalArray g) p (concat (map (\<lambda>ef. face_normals (snd ef)) (a @ b)))"
    using assms by (intro splice_concat_append) (simp_all add: fits_def length_face_runs)
  have an: "gpuClamping env \<Longrightarrow>
           splice (splice (anchorArray g) p (concat (map (\<lambda>ef. face_anchors env st (snd ef)) a)))
             (p + 6 * length a) (concat (map (\<lambda>ef. face_anchors env st (snd ef)) b))
         = splice (anchorArray g) p (concat (map (\<lambda>ef. face_anchors env st (snd ef)) (a @ b)))"
    using assms by (intro splice_concat_append) (simp_all add: fits_def length_face_runs)
  have c: "useColor env wallSkin \<Longrightarrow>
           splice (splice (colorArray g) p (concat (map (\<lambda>ef. face_colors wc wbc) a)))
             (p + 6 * length a) (concat (map (\<lambda>ef. face_colors wc wbc) b))
         = splice (colorArray g) p (concat (map (\<lambda>ef. face_colors wc wbc) (a @ b)))"
    using assms by (intro splice_concat_append) (simp_all add: fits_def length_face_runs)
  have t: "wallSkin = Some sk \<Longrightarrow>
           splice (splice (texCoordArray g) p (concat (map (\<lambda>ef. faceTex sk (fst ef) (snd ef)) a)))
             (p + 6 * length a) (concat (map (\<lambda>ef. faceTex sk (fst ef) (snd ef)) b))
         = splice (texCoordArray g) p (concat (map (\<lambda>ef. faceTex sk (fst ef) (snd ef)) (a @ b)))" for sk
    using assms by (intro splice_concat_append) (simp_all add: fits_def length_face_runs)
  have e: "[p ..< p + 6 * length a] @ [p + 6 * length a ..< p + 6 * length a + 6 * length b]
         = [p ..< p + 6 * (length a + length b)]"
    using upt_add_eq_append[of p "p + 6 * length a" "6 * length b"]
    by (simp add: add.assoc distrib_left)
  show ?thesis
    unfolding wrote_def[of env st wc wbc wallSkin b]
    by (cases wallSkin) (simp_all add: wrote_def v n an c t e)
qed

lemma fits_wrote:
  assumes "fits env wallSkin p (6 * length a + n) g"
  shows "fits env wallSkin (p + 6 * length a) n (wrote env st wc wbc wallSkin a p g)"
proof -
  have "length (splice xs p (concat (map h a))) = length xs"
    if "\<And>x. length (h x) = 6" "p + (6 * length a + n) \<le> length xs" for xs :: "'b list" and h
    using that by (intro length_splice) (simp add: length_concat_six)
  note ls = this
  show ?thesis
    using assms
    by (cases wallSkin) (auto simp: fits_def wrote_def ls length_face_runs add.assoc)
qed


lemma fits_mono: "fits env wallSkin p n g \<Longrightarrow> m \<le> n \<Longrightarrow> fits env wallSkin p m g"
  by (auto simp: fits_def)

lemma wall_faces_ok:
  assumes "fits env wallSkin p (6 * length fs) g"
  shows "wall_faces env st wc wbc wallSkin e fs p g
       = Some (p + 6 * length fs, wrote env st wc wbc wallSkin (map (Pair e) fs) p g)"
  using assms
proof (induction fs arbitrary: p g)
  case Nil
  then show ?case by (simp add: wrote_Nil)
next
  case (Cons f fs)
  let ?g' = "wrote env st wc wbc wallSkin [(e, f)] p g"
  have one: "wallFace env st wc wbc wallSkin e f p g = Some ?g'"
    using Cons.prems by (intro wallFace_ok) (auto elim: fits_mono)
  have "fits env wallSkin p (6 * length [(e, f)] + 6 * length fs) g"
    using Cons.prems by simp
  from fits_wrote[OF this] have "fits env wallSkin (p + 6) (6 * length fs) ?g'" by simp
  from Cons.IH[OF this] have rest: "wall_faces env st wc wbc wallSkin e fs (p + 6) ?g'
       = Some (p + 6 + 6 * length fs, wrote env st wc wbc wallSkin (map (Pair e) fs) (p + 6) ?g')" .
  have "fits env wallSkin p (6 * (length [(e, f)] + length (map (Pair e) fs))) g"
    using Cons.prems by simp
  from wrote_append[OF this]
  have "wrote env st wc wbc wallSkin (map (Pair e) fs) (p + 6) ?g'
      = wrote env st wc wbc wallSkin ((e, f) # map (Pair e) fs) p g" by simp
  with one rest show ?case by simp
qed

lemma wall_elevations_ok:
  assumes "fits env wallSkin p (6 * length (struct_faces es)) g"
  shows "wall_elevations env st wc wbc wallSkin es p g
       = Some (p + 6 * length (struct_faces es), wrote env st wc wbc wallSkin (struct_faces es) p g)"
  using assms
proof (induction es arbitrary: p g)
  case Nil
  then show ?case by (simp add: struct_faces_def wrote_Nil)
next
  case (Cons e es)
  let ?a = "map (Pair e) (faces e)"
  let ?g' = "wrote env st wc wbc wallSkin ?a p g"
  have sf: "struct_faces (e # es) = ?a @ struct_faces es" by (simp add: struct_faces_def)
  have tot: "fits env wallSkin p (6 * length ?a + 6 * length (struct_faces es)) g"
    using Cons.prems by (simp add: sf)
  have one: "wall_faces env st wc wbc wallSkin e (faces e) p g = Some (p + 6 * length (faces e), ?g')"
    using tot by (intro wall_faces_ok) (auto elim: fits_mono)
  from fits_wrote[OF tot] have "fits env wallSkin (p + 6 * length (faces e)) (6 * length (struct_faces es)) ?g'"
    by simp
  from Cons.IH[OF this] have rest: "wall_elevations env st wc wbc wallSkin es (p + 6 * length (faces e)) ?g'
       = Some (p + 6 * length (faces e) + 6 * length (struct_faces es),
               wrote env st wc wbc wallSkin (struct_faces es) (p + 6 * length (faces e)) ?g')" .
  have "fits env wallSkin p (6 * (length ?a + length (struct_faces es))) g"
    using tot by (simp add: distrib_left)
  from wrote_append[OF this]
  have "wrote env st wc wbc wallSkin (struct_faces es) (p + 6 * length (faces e)) ?g'
      = wrote env st wc wbc wallSkin (struct_faces (e # es)) p g" by (simp add: sf)
  with one rest show ?case by (simp add: sf)
qed

lemma getNumPoints_faces: "getNumPoints st = 6 * length (struct_faces (elevations st))"
proof -
  have "sum_list (map (\<lambda>e. 6 * length (faces e)) es) = 6 * length (struct_faces es)" for es
    by (induction es) (simp_all add: struct_faces_def)
  then show ?thesis by (simp add: getNumPoints_def)
qed

lemma buildWallGeometry_start:
  "buildWallGeometry env st walls wc wbc wallSkin =
     map_option (\<lambda>r. (True, snd r))
       (wall_elevations env st wc wbc wallSkin (elevations st) (length (vertexArray walls))
          (wall_start env wallSkin (getNumPoints st) walls))"
  by (cases walls; cases wallSkin) (simp_all add: buildWallGeometry_def wall_start_def Let_def)

lemma fits_start:
  "aligned env wallSkin walls \<Longrightarrow> fits env wallSkin (length (vertexArray walls)) n
     (wall_start env wallSkin n walls)"
  by (cases wallSkin) (auto simp: aligned_def fits_def wall_start_def grow_def)

lemma buildWallGeometry_ok:
  assumes "aligned env wallSkin walls"
  shows "buildWallGeometry env st walls wc wbc wallSkin =
     Some (True, wrote env st wc wbc wallSkin (struct_faces (elevations st))
                   (length (vertexArray walls)) (wall_start env wallSkin (getNumPoints st) walls))"
proof -
  have "fits env wallSkin (length (vertexArray walls)) (6 * length (struct_faces (elevations st)))
     (wall_start env wallSkin (getNumPoints st) walls)"
    using fits_start[OF assms, of "getNumPoints st"] by (simp add: getNumPoints_faces)
  from wall_elevations_ok[OF this] show ?thesis by (simp add: buildWallGeometry_start)
qed


lemma map_snd_struct_faces: "map snd (struct_faces es) = concat (map faces es)"
  by (induction es) (simp_all add: struct_faces_def comp_def)

lemma concat_map_snd: "concat (map (\<lambda>ef. h (snd ef)) efs) = concat (map h (map snd efs))"
  by (simp add: comp_def)

text \<open>
  Claim C1. For every structure, buildWallGeometry appends for every face of every elevation
  exactly six vertices, in the order roof-left, base-left, base-right, base-right, roof-right,
  roof-left; the vertex array grows by six times the total number of faces; and the six
  normals of a face are all the cross product of \<open>left.base - left.roof\<close> and
  \<open>right.base - left.roof\<close>. The arrays in use are taken to be as long as the vertex
  array on entry, as the mesh buffers of the filter are.
\<close>

theorem wall_six_vertices_per_face:
  assumes "aligned env wallSkin walls"
  shows "\<exists>g. buildWallGeometry env st walls wc wbc wallSkin = Some (True, g)
     \<and> vertexArray g = vertexArray walls @
         concat (map (\<lambda>f. [roof (left f), base (left f), base (right f),
                           base (right f), roof (right f), roof (left f)]) (all_faces st))
     \<and> length (vertexArray g) = length (vertexArray walls) + 6 * length (all_faces st)
     \<and> normalArray g = normalArray walls @
         concat (map (\<lambda>f. replicate 6 (vcross (vsub (base (left f)) (roof (left f)))
                                               (vsub (base (right f)) (roof (left f)))))
                   (all_faces st))"
proof -
  let ?efs = "struct_faces (elevations st)"
  let ?p = "length (vertexArray walls)"
  let ?g = "wrote env st wc wbc wallSkin ?efs ?p (wall_start env wallSkin (getNumPoints st) walls)"
  have af: "map snd ?efs = all_faces st" by (simp add: all_faces_def map_snd_struct_faces)
  have n: "getNumPoints st = 6 * length ?efs" by (rule getNumPoints_faces)
  have len: "length ?efs = length (all_faces st)" using af by (metis length_map)
  have lv: "length (concat (map face_verts (all_faces st))) = getNumPoints st"
    by (simp add: length_concat_six length_face_runs n len)
  have ln: "length (concat (map face_normals (all_faces st))) = getNumPoints st"
    by (simp add: length_concat_six length_face_runs n len)
  have pn: "length (normalArray walls) = ?p" using assms by (simp add: aligned_def)
  have v: "vertexArray ?g = vertexArray walls @ concat (map face_verts (all_faces st))"
    by (simp add: wrote_def wall_start_def splice_grow[OF lv] concat_map_snd af)
  have nn: "normalArray ?g = normalArray walls @ concat (map face_normals (all_faces st))"
    using splice_grow[OF ln, of "Vec3 0 0 0" "normalArray walls"]
    by (simp add: wrote_def wall_start_def pn concat_map_snd af)
  have fv: "face_verts = (\<lambda>f. [roof (left f), base (left f), base (right f),
                           base (right f), roof (right f), roof (left f)])"
    by (rule ext) (simp add: face_verts_def)
  have fn: "face_normals = (\<lambda>f. replicate 6 (vcross (vsub (base (left f)) (roof (left f)))
                                               (vsub (base (right f)) (roof (left f)))))"
    by (rule ext) (simp add: face_normals_def face_normal_def Let_def numeral_eq_Suc)
  have "length (vertexArray ?g) = ?p + 6 * length (all_faces st)"
    by (simp add: v length_concat_six length_face_runs)
  with buildWallGeometry_ok[OF assms, of st wc wbc] v nn show ?thesis
    unfolding fv fn by blast
qed


theorem wall_six_vertices_per_face_witness:
  "aligned demo_env None empty_walls
   \<and> (\<exists>g. buildWallGeometry demo_env demo_structure empty_walls white white None = Some (True, g)
        \<and> vertexArray g = [Vec3 0 0 5, Vec3 0 0 0, Vec3 10 0 0, Vec3 10 0 0, Vec3 10 0 5, Vec3 0 0 5]
        \<and> length (vertexArray g) = 6
        \<and> normalArray g = replicate 6 (Vec3 0 (- 50) 0))"
proof -
  have al: "aligned demo_env None empty_walls"
    by (simp add: aligned_def empty_walls_def)
  have af: "all_faces demo_structure = [demo_face]"
    by (simp add: all_faces_def demo_structure_def demo_elevation_def)
  from wall_six_vertices_per_face[OF al, of demo_structure white white] al show ?thesis
    unfolding af by (simp add: demo_face_def empty_walls_def vcross_def vsub_def)
qed

lemma DBL_MAX_pos: "0 < DBL_MAX"
  by (simp add: DBL_MAX_def)

lemma demo_extent_eq: "zfinder 5 demo_input = \<lparr>targetLen = 5, minLoc = Vec3 0 0 0, maxLoc = Vec3 0 0 0\<rparr>"
  using DBL_MAX_pos by (simp add: zfinder_def demo_input_def extent0_def zfinder_point_def Let_def)

lemma demo_structure_built:
  "buildStructure None demo_input 5 False 0 (Some plain_skin) empty_structure
     = Some (True, demo_structure)"
proof -
  have r: "osg_round (5 / 3) = 2" by (simp add: osg_round_def)
  have cs: "partCorners None False 5 False (Some plain_skin)
      \<lparr>targetLen = 5, minLoc = Vec3 0 0 0, maxLoc = Vec3 0 0 0\<rparr> [Vec3 0 0 0, Vec3 10 0 0]
      = Some [left demo_face, right demo_face]"
    by (simp add: partCorners_def subdivide_def makeCorner_def localize_def plain_skin_def
        demo_face_def vec_defs tile_loop_skip)
  have el: "buildElevation None False 5 False (Some plain_skin)
      \<lparr>targetLen = 5, minLoc = Vec3 0 0 0, maxLoc = Vec3 0 0 0\<rparr> [Vec3 0 0 0, Vec3 10 0 0]
      = Some demo_elevation"
    unfolding buildElevation_def cs
    by (simp add: adjustTexHeight_def r buildFaces_def demo_elevation_def demo_face_def
        plain_skin_def)
  have inp: "parts demo_input = [[Vec3 0 0 0, Vec3 10 0 0]]" "isPolygonType demo_input = False"
    by (simp_all add: demo_input_def)
  show ?thesis
    by (simp add: buildStructure_def Let_def demo_extent_eq inp el empty_structure_def
        demo_structure_def)
qed

lemma faceTex_amended:
  "texHeightAdjustedM e \<noteq> 0 \<Longrightarrow> faceTex sk e f = map (scale_bias sk) (amended_uv sk e f)"
  by (simp add: faceTex_def amended_uv_def scale_bias_def left_u_def right_u_def roof_v_def
      wall_height_def Let_def)

lemma struct_faces_elevation: "ef \<in> set (struct_faces es) \<Longrightarrow> fst ef \<in> set es"
  by (auto simp: struct_faces_def)

text \<open>
  Claim C6, amended. With a wall skin of texture width \<open>w > 0\<close> and elevations whose
  texHeightAdjustedM is not zero, the six texture coordinates of every face are, before
  scale and bias: left U \<open>fmod(left.offsetX, w) / w\<close>; right U
  \<open>fmod(right.offsetX, w) / w\<close>, replaced by 1 when it is less than the left U or both
  are 0; V = 0 at the base; and at the roof V is the wall height over texHeightAdjustedM
  when the skin is tiled, and 1 when it is not.
\<close>

theorem wall_uv_by_skin_tiling:
  assumes "aligned env (Some sk) walls" and "imageWidth sk > 0"
    and "\<forall>e \<in> set (elevations st). texHeightAdjustedM e \<noteq> 0"
  shows "\<exists>g. buildWallGeometry env st walls wc wbc (Some sk) = Some (True, g)
     \<and> texCoordArray g = texCoordArray walls @
         concat (map (\<lambda>ef. map (scale_bias sk) (amended_uv sk (fst ef) (snd ef)))
                   (struct_faces (elevations st)))"
proof -
  let ?efs = "struct_faces (elevations st)"
  let ?p = "length (vertexArray walls)"
  let ?g = "wrote env st wc wbc (Some sk) ?efs ?p
              (wall_start env (Some sk) (getNumPoints st) walls)"
  have lt: "length (concat (map (\<lambda>ef. faceTex sk (fst ef) (snd ef)) ?efs)) = getNumPoints st"
    by (simp add: length_concat_six length_face_runs getNumPoints_faces)
  have pt: "length (texCoordArray walls) = ?p" using assms(1) by (simp add: aligned_def)
  have tex: "texCoordArray ?g = texCoordArray walls @
         concat (map (\<lambda>ef. faceTex sk (fst ef) (snd ef)) ?efs)"
    using splice_grow[OF lt, of "Vec3 0 0 0" "texCoordArray walls"]
    by (simp add: wrote_def wall_start_def pt)
  have "map (\<lambda>ef. faceTex sk (fst ef) (snd ef)) ?efs
      = map (\<lambda>ef. map (scale_bias sk) (amended_uv sk (fst ef) (snd ef))) ?efs"
  proof (rule map_cong[OF refl])
    fix ef assume "ef \<in> set ?efs"
    then have "fst ef \<in> set (elevations st)" by (rule struct_faces_elevation)
    with assms(3) have "texHeightAdjustedM (fst ef) \<noteq> 0" by blast
    then show "faceTex sk (fst ef) (snd ef) = map (scale_bias sk) (amended_uv sk (fst ef) (snd ef))"
      by (rule faceTex_amended)
  qed
  with tex have "texCoordArray ?g = texCoordArray walls @
         concat (map (\<lambda>ef. map (scale_bias sk) (amended_uv sk (fst ef) (snd ef))) ?efs)"
    by simp
  with buildWallGeometry_ok[OF assms(1), of st wc wbc] show ?thesis by blast
qed

lemma demo_plain_tex:
  "map_option texCoordArray (map_option snd
     (buildWallGeometry demo_env demo_structure empty_walls white white (Some plain_skin)))
   = Some [Vec3 0 1 0, Vec3 0 0 0, Vec3 (1 / 2) 0 0, Vec3 (1 / 2) 0 0, Vec3 (1 / 2) 1 0, Vec3 0 1 0]"
proof -
  have al: "aligned demo_env (Some plain_skin) empty_walls"
    by (simp add: aligned_def empty_walls_def)
  have sf: "struct_faces (elevations demo_structure) = [(demo_elevation, demo_face)]"
    by (simp add: struct_faces_def demo_structure_def demo_elevation_def)
  have f2: "c_fmod 10 20 = 10" by (simp add: c_fmod_def)
  have f0: "c_fmod 0 20 = 0" by (simp add: c_fmod_def)
  have "faceTex plain_skin demo_elevation demo_face
      = [Vec3 0 1 0, Vec3 0 0 0, Vec3 (1 / 2) 0 0, Vec3 (1 / 2) 0 0, Vec3 (1 / 2) 1 0, Vec3 0 1 0]"
    by (simp add: faceTex_def plain_skin_def demo_elevation_def demo_face_def f2 f0 Let_def)
  then show ?thesis
    unfolding buildWallGeometry_ok[OF al]
    by (simp add: sf wrote_def wall_start_def getNumPoints_faces
        empty_walls_def splice_def grow_def)
qed

text \<open>
  Claim C6 as stated fails for a skin that is not tiled: on the wall of height 5 built for
  the example line, whose adjusted texture height is \<open>5 / 2\<close>, the roof vertices get
  V = 1 and not \<open>5 / (5 / 2)\<close>.
\<close>

theorem wall_roof_v_counterexample:
  "map_option texCoordArray (map_option snd
     (buildWallGeometry demo_env demo_structure empty_walls white white (Some plain_skin)))
   \<noteq> Some (texCoordArray empty_walls
             @ map (scale_bias plain_skin) (claimed_uv plain_skin demo_elevation demo_face))"
proof -
  have f2: "c_fmod 10 20 = 10" by (simp add: c_fmod_def)
  have f0: "c_fmod 0 20 = 0" by (simp add: c_fmod_def)
  show ?thesis
    unfolding demo_plain_tex
    by (simp add: claimed_uv_def scale_bias_def left_u_def right_u_def wall_height_def
        plain_skin_def demo_elevation_def demo_face_def empty_walls_def vsub_def vlength_def
        length2_def f2 f0)
qed

theorem wall_uv_by_skin_tiling_witness:
  "aligned demo_env (Some plain_skin) empty_walls \<and> imageWidth plain_skin > 0
   \<and> elevations demo_structure = [demo_elevation] \<and> texHeightAdjustedM demo_elevation = 5 / 2
   \<and> (\<exists>g. buildWallGeometry demo_env demo_structure empty_walls white white (Some plain_skin)
             = Some (True, g)
        \<and> texCoordArray g = [Vec3 0 1 0, Vec3 0 0 0, Vec3 (1 / 2) 0 0,
                              Vec3 (1 / 2) 0 0, Vec3 (1 / 2) 1 0, Vec3 0 1 0])"
proof -
  have al: "aligned demo_env (Some plain_skin) empty_walls"
    by (simp add: aligned_def empty_walls_def)
  have w: "imageWidth plain_skin > 0" by (simp add: plain_skin_def)
  have nz: "\<forall>e \<in> set (elevations demo_structure). texHeightAdjustedM e \<noteq> 0"
    by (simp add: demo_structure_def demo_elevation_def)
  have sf: "struct_faces (elevations demo_structure) = [(demo_elevation, demo_face)]"
    by (simp add: struct_faces_def demo_structure_def demo_elevation_def)
  have f2: "c_fmod 10 20 = 10" by (simp add: c_fmod_def)
  have f0: "c_fmod 0 20 = 0" by (simp add: c_fmod_def)
  have uv: "map (scale_bias plain_skin) (amended_uv plain_skin demo_elevation demo_face)
      = [Vec3 0 1 0, Vec3 0 0 0, Vec3 (1 / 2) 0 0, Vec3 (1 / 2) 0 0, Vec3 (1 / 2) 1 0, Vec3 0 1 0]"
    by (simp add: amended_uv_def scale_bias_def left_u_def right_u_def roof_v_def
        plain_skin_def demo_elevation_def demo_face_def f2 f0)
  have els: "elevations demo_structure = [demo_elevation]"
    "texHeightAdjustedM demo_elevation = 5 / 2"
    by (simp_all add: demo_structure_def demo_elevation_def)
  from wall_uv_by_skin_tiling[OF al w nz, of white white] al w els show ?thesis
    unfolding sf by (simp add: uv empty_walls_def)
qed

section \<open>Properties of the apparent rotation\<close>



















section \<open>Properties of push\<close>

lemma same_core_refl: "same_core f f"
  by (simp add: same_core_def)

lemma same_core_trans: "same_core f g \<Longrightarrow> same_core g h \<Longrightarrow> same_core f h"
  by (simp add: same_core_def)

lemma use_height_expression_core: "same_core (use_height_expression ext flt) flt"
  by (simp add: use_height_expression_def same_core_def split: option.splits)

lemma use_altitude_core: "same_core (use_altitude ext flt) flt"
  by (simp add: use_altitude_def same_core_def Let_def split: option.splits)

lemma use_wall_style_core: "same_core (use_wall_style ext ctx flt) flt"
  by (simp add: use_wall_style_def same_core_def split: option.splits)

lemma use_roof_style_core: "same_core (use_roof_style ext ctx flt) flt"
  by (simp add: use_roof_style_def same_core_def split: option.splits)

lemma no_outline_if_core: "same_core (no_outline_if poly flt) flt"
  by (simp add: no_outline_if_def same_core_def split: option.splits)

lemma use_outline_core: "same_core (use_outline flt) flt"
proof -
  have "same_core (flt\<lparr>outlineSymbol := lineOf (style flt)\<rparr>) flt"
    by (simp add: same_core_def)
  then show ?thesis
    unfolding use_outline_def Let_def
    by (intro same_core_trans[OF no_outline_if_core] same_core_trans[OF no_outline_if_core])
qed

lemma reset_extrusion_core: "same_core (reset_extrusion ext ctx flt) flt"
  unfolding reset_extrusion_def
  by (intro same_core_trans[OF use_outline_core] same_core_trans[OF use_roof_style_core]
      same_core_trans[OF use_wall_style_core] same_core_trans[OF use_altitude_core]
      use_height_expression_core)

lemma backup_skin_core: "same_core (backup_skin flt) flt"
  by (simp add: backup_skin_def same_core_def Let_def split: option.splits)

lemma backup_polygon_core: "same_core (backup_polygon flt) flt"
  by (simp add: backup_polygon_def same_core_def Let_def split: option.splits)

lemma reset_dirty_core:
  assumes "styleDirty flt"
  shows "extrusionSymbol (reset flt ctx) = extrusionOf (style flt)
       \<and> style (reset flt ctx) = style flt \<and> geodes (reset flt ctx) = []"
proof -
  let ?f0 = "flt\<lparr>cosWallAngleThresh := cos (wallAngleThresh_deg flt), geodes := []\<rparr>"
  let ?f1 = "clear_symbols ?f0"
  let ?f2 = "?f1\<lparr>extrusionSymbol := extrusionOf (style ?f1)\<rparr>"
  let ?f3 = "case extrusionSymbol ?f2 of None \<Rightarrow> ?f2 | Some ext \<Rightarrow> reset_extrusion ext ctx ?f2"
  have f2: "extrusionSymbol ?f2 = extrusionOf (style flt)" "style ?f2 = style flt" "geodes ?f2 = []"
    by (simp_all add: clear_symbols_def)
  have "same_core ?f3 ?f2"
    by (cases "extrusionSymbol ?f2") (simp_all only: option.case same_core_refl reset_extrusion_core)
  then have core: "same_core (backup_polygon (backup_skin ?f3)) ?f2"
    by (intro same_core_trans[OF backup_polygon_core] same_core_trans[OF backup_skin_core])
  have sd: "styleDirty ?f0" using assms by simp
  have "reset flt ctx = (backup_polygon (backup_skin ?f3))\<lparr>styleDirty := False\<rparr>"
    unfolding reset_def Let_def using sd by (simp only: if_True)
  then show ?thesis using core f2 by (simp add: same_core_def)
qed

lemma reset_clean_core:
  assumes "\<not> styleDirty flt"
  shows "extrusionSymbol (reset flt ctx) = extrusionSymbol flt
       \<and> style (reset flt ctx) = style flt \<and> geodes (reset flt ctx) = []"
  using assms by (simp add: reset_def Let_def)

lemma reset_extrusionSymbol:
  "cache_valid flt \<Longrightarrow> extrusionSymbol (reset flt ctx) = extrusionOf (style flt)"
  using reset_dirty_core[of flt ctx] reset_clean_core[of flt ctx]
  by (cases "styleDirty flt") (simp_all add: cache_valid_def)

lemma reset_style: "style (reset flt ctx) = style flt \<and> geodes (reset flt ctx) = []"
  using reset_dirty_core[of flt ctx] reset_clean_core[of flt ctx]
  by (cases "styleDirty flt") simp_all

lemma cache_valid_new: "cache_valid new_filter"
  by (simp add: cache_valid_def new_filter_def)

lemma cache_valid_setStyle: "cache_valid (setStyle flt s)"
  by (simp add: cache_valid_def setStyle_def)

lemma cache_valid_reset: "cache_valid flt \<Longrightarrow> cache_valid (reset flt ctx)"
  using reset_extrusionSymbol[of flt ctx] reset_style[of flt ctx] by (simp add: cache_valid_def)

text \<open>
  Claim C9. If the style carries no extrusion symbol, push returns right after reset: the
  result is an empty group and one warning, whatever the features and whatever the rest of
  push would do, and the filter holds no geode.
\<close>

theorem push_without_extrusion_symbol:
  assumes "extrusionOf (style flt) = None" and "cache_valid flt"
  shows "push extrude flt input ctx = (reset flt ctx, Group [], [missing_extrusion_warning])
       \<and> geodes (reset flt ctx) = []"
  using assms reset_extrusionSymbol[OF assms(2), of ctx] reset_style[of flt ctx]
  by (simp add: push_def Let_def)

theorem push_without_extrusion_symbol_witness:
  "extrusionOf (style (setStyle new_filter empty_style)) = None
   \<and> cache_valid (setStyle new_filter empty_style)
   \<and> fst (snd (push one_geode (setStyle new_filter empty_style) [1, 2] \<lparr>styles = None\<rparr>))
       = Group []
   \<and> snd (snd (push one_geode (setStyle new_filter empty_style) [1, 2] \<lparr>styles = None\<rparr>))
       = [missing_extrusion_warning]"
proof -
  have a: "extrusionOf (style (setStyle new_filter empty_style)) = None"
    by (simp add: setStyle_def empty_style_def)
  have b: "cache_valid (setStyle new_filter empty_style)" by (rule cache_valid_setStyle)
  from push_without_extrusion_symbol[OF a b, of one_geode "[1, 2]" "\<lparr>styles = None\<rparr>"] a b
  show ?thesis by simp
qed

end
